theory Spec2Isabelle
  imports Main "HOL-Library.AList"
begin

section \<open>Anchor scrolling: the delegated click handler (anchor-scroll.js)\<close>

text \<open>
  The handler reads the click event, the current location and the document, and acts
  on the browser through four calls only: \<^verbatim>\<open>e.preventDefault()\<close>, a scroll
  (\<^verbatim>\<open>centerElement\<close>), \<^verbatim>\<open>history.pushState\<close> and a focus
  (\<^verbatim>\<open>focusWithoutScroll\<close>). The model returns the calls it makes, in order.
  Elements are named by a node number.
\<close>

record url =
  origin :: string
  pathname :: string
  hash :: string

datatype effect =
    PreventDefault
  | ScrollIntoView nat
  | ScrollTo nat
  | PushState string
  | SetTabindex nat
  | Focus nat
  | RemoveTabindexNextFrame nat
  | RestoreTabindex nat

record target =
  node :: nat
  scrollIntoView_callable :: bool
  scrollIntoView_throws :: bool
  hadTabIndex :: bool

record page =
  location :: url
  new_URL :: "string \<Rightarrow> url option"
  getElementById :: "string \<Rightarrow> target option"
  getElementsByName :: "string \<Rightarrow> target list"

record click =
  closest_defined :: bool
  closest_anchor :: "string option option"

text \<open>
  \<^verbatim>\<open>new_URL page href\<close> is \<^verbatim>\<open>new URL(href, location.href)\<close>; \<open>None\<close> when
  the constructor throws. \<^verbatim>\<open>closest_anchor\<close> is the result of
  \<^verbatim>\<open>e.target.closest('a[href*="#"]')\<close>: \<open>None\<close> when no anchor encloses the
  target, otherwise the anchor's \<^verbatim>\<open>getAttribute('href')\<close>.
\<close>

definition centerElement :: "target \<Rightarrow> effect list" where
  "centerElement el =
     (if scrollIntoView_callable el \<and> \<not> scrollIntoView_throws el
      then [ScrollIntoView (node el)]
      else [ScrollTo (node el)])"

definition focusWithoutScroll :: "target \<Rightarrow> effect list" where
  "focusWithoutScroll el =
     (if hadTabIndex el
      then [Focus (node el), RestoreTabindex (node el)]
      else [SetTabindex (node el), Focus (node el), RemoveTabindexNextFrame (node el)])"

definition lookupTarget :: "page \<Rightarrow> string \<Rightarrow> target option" where
  "lookupTarget p ident =
     (case getElementById p ident of
        Some el \<Rightarrow> Some el
      | None \<Rightarrow> (case getElementsByName p ident of [] \<Rightarrow> None | el # _ \<Rightarrow> Some el))"

definition scrollToTarget :: "page \<Rightarrow> string \<Rightarrow> effect list" where
  "scrollToTarget p ident =
     (if ident = [] then []
      else (case lookupTarget p ident of
        None \<Rightarrow> []
      | Some el \<Rightarrow>
          [PreventDefault] @ centerElement el @ [PushState (CHR ''#'' # ident)]
            @ focusWithoutScroll el))"

definition onDocumentClick :: "page \<Rightarrow> click \<Rightarrow> effect list" where
  "onDocumentClick p e =
     (if \<not> closest_defined e then []
      else (case closest_anchor e of
        None \<Rightarrow> []
      | Some None \<Rightarrow> []
      | Some (Some href) \<Rightarrow>
          (if href = [] then []
           else (case new_URL p href of
             None \<Rightarrow>
               (if CHR ''#'' \<notin> set href then []
                else scrollToTarget p (drop 1 (dropWhile (\<lambda>c. c \<noteq> CHR ''#'') href)))
           | Some u \<Rightarrow>
               (if origin u \<noteq> origin (location p) \<or> pathname u \<noteq> pathname (location p)
                then []
                else scrollToTarget p (drop 1 (hash u)))))))"

definition team_section :: target where
  "team_section =
     \<lparr>node = 7, scrollIntoView_callable = True, scrollIntoView_throws = False,
      hadTabIndex = False\<rparr>"

definition home_page :: page where
  "home_page =
     \<lparr>location = \<lparr>origin = ''https://majdij.com'', pathname = ''/'', hash = []\<rparr>,
      new_URL = (\<lambda>href.
        if href = ''/about#team''
        then Some \<lparr>origin = ''https://majdij.com'', pathname = ''/about'', hash = ''#team''\<rparr>
        else if href = ''#team''
        then Some \<lparr>origin = ''https://majdij.com'', pathname = ''/'', hash = ''#team''\<rparr>
        else None),
      getElementById = (\<lambda>i. if i = ''team'' then Some team_section else None),
      getElementsByName = (\<lambda>i. [])\<rparr>"

definition click_on :: "string \<Rightarrow> click" where
  "click_on href = \<lparr>closest_defined = True, closest_anchor = Some (Some href)\<rparr>"

text \<open>
  C10. A click on an anchor whose URL resolves to another origin or another path, or
  whose fragment is empty, or whose fragment names no element (neither by id nor by
  name), makes the handler do nothing: no \<^verbatim>\<open>preventDefault\<close>, no scroll, no
  history entry, no focus change.
\<close>

theorem onDocumentClick_leaves_navigation:
  assumes "closest_anchor e = Some (Some href)"
    and "new_URL p href = Some u"
    and "origin u \<noteq> origin (location p) \<or> pathname u \<noteq> pathname (location p)
         \<or> drop 1 (hash u) = [] \<or> lookupTarget p (drop 1 (hash u)) = None"
  shows "onDocumentClick p e = []"
  using assms by (auto simp: onDocumentClick_def scrollToTarget_def)

theorem onDocumentClick_leaves_navigation_witness:
  "closest_anchor (click_on ''/about#team'') = Some (Some ''/about#team'')
   \<and> new_URL home_page ''/about#team''
       = Some \<lparr>origin = ''https://majdij.com'', pathname = ''/about'', hash = ''#team''\<rparr>
   \<and> ''/about'' \<noteq> pathname (location home_page)
   \<and> lookupTarget home_page ''team'' = Some team_section
   \<and> onDocumentClick home_page (click_on ''/about#team'') = []
   \<and> onDocumentClick home_page (click_on ''#team'')
       = [PreventDefault, ScrollIntoView 7, PushState ''#team'', SetTabindex 7, Focus 7,
          RemoveTabindexNextFrame 7]"
proof -
  let ?u = "\<lparr>origin = ''https://majdij.com'', pathname = ''/about'', hash = ''#team''\<rparr>"
  have a: "closest_anchor (click_on ''/about#team'') = Some (Some ''/about#team'')"
    by (simp add: click_on_def)
  have b: "new_URL home_page ''/about#team'' = Some ?u"
    by (simp add: home_page_def)
  have c: "pathname ?u \<noteq> pathname (location home_page)"
    by (simp add: home_page_def)
  have d: "lookupTarget home_page ''team'' = Some team_section"
    by (simp add: lookupTarget_def home_page_def)
  have e: "onDocumentClick home_page (click_on ''/about#team'') = []"
    using onDocumentClick_leaves_navigation [OF a b] c by blast
  have f: "onDocumentClick home_page (click_on ''#team'')
       = [PreventDefault, ScrollIntoView 7, PushState ''#team'', SetTabindex 7, Focus 7,
          RemoveTabindexNextFrame 7]"
    by (simp add: onDocumentClick_def click_on_def home_page_def scrollToTarget_def
        lookupTarget_def centerElement_def focusWithoutScroll_def team_section_def)
  from a b c d e f show ?thesis by simp
qed

section \<open>The reCAPTCHA coordinator (recaptcha-display.js, first script)\<close>

subsection \<open>Elements and their attributes\<close>

text \<open>
  A placeholder is a DOM element with a node identity (\<open>el_id\<close>), a class name and
  its other attributes, in the order of \<^verbatim>\<open>el.attributes\<close>. Only elements matched by
  \<^verbatim>\<open>.g-recaptcha\<close> are kept in the model, so the class name a replacement copies
  matches the selector again.
\<close>

record element =
  el_id :: nat
  className :: string
  attributes :: "(string \<times> string) list"

definition getAttribute :: "element \<Rightarrow> string \<Rightarrow> string option" where
  "getAttribute el name = map_of (attributes el) name"

definition setAttribute :: "string \<Rightarrow> string \<Rightarrow> element \<Rightarrow> element" where
  "setAttribute name v el = el\<lparr>attributes := AList.update name v (attributes el)\<rparr>"

definition removeAttribute :: "string \<Rightarrow> element \<Rightarrow> element" where
  "removeAttribute name el = el\<lparr>attributes := AList.delete name (attributes el)\<rparr>"

definition startsWith :: "string \<Rightarrow> string \<Rightarrow> bool" where
  "startsWith s prefix = (take (length prefix) s = prefix)"

definition truthy :: "string option \<Rightarrow> bool" where
  "truthy v = (case v of None \<Rightarrow> False | Some x \<Rightarrow> x \<noteq> [])"

definition orEmpty :: "string option \<Rightarrow> string" where
  "orEmpty v = (case v of None \<Rightarrow> [] | Some x \<Rightarrow> x)"

definition copyDataAttributes :: "element \<Rightarrow> element \<Rightarrow> element" where
  "copyDataAttributes srcEl destEl =
     fold (\<lambda>(name, v) d. if startsWith name ''data-'' then setAttribute name v d else d)
       (attributes srcEl) destEl"

fun string_of_nat :: "nat \<Rightarrow> string" where
  "string_of_nat n =
     (if n < 10 then [''0123456789'' ! n]
      else string_of_nat (n div 10) @ [''0123456789'' ! (n mod 10)])"

declare string_of_nat.simps [simp del]

subsection \<open>The page, the widget API and the script's variables\<close>

text \<open>
  \<^verbatim>\<open>window.grecaptcha\<close> is \<open>None\<close> until Google's script has defined it with its
  functions. Its \<^verbatim>\<open>render\<close> either returns a widget id or throws; which one the
  \<open>k\<close>-th call does is the environment's choice, given as a function of \<open>k\<close>.
  \<^verbatim>\<open>getResponse\<close> gives the token of a widget, empty while unsolved.
\<close>

datatype render_result = WidgetId nat | RenderThrows

record api =
  render :: "nat \<Rightarrow> render_result"
  getResponse :: "nat \<Rightarrow> string"

record renderOptions =
  opt_sitekey :: "string option"
  opt_theme :: "string option"
  opt_size :: "string option"

record retry =
  attempts :: nat
  scheduled :: bool

text \<open>
  A pending \<^verbatim>\<open>setTimeout\<close> of \<^verbatim>\<open>scheduleRenderAttempt\<close>: the closure keeps the
  container, the element and the state object of the element. The object is changed
  only by \<^verbatim>\<open>scheduleRenderAttempt\<close>, past the \<^verbatim>\<open>state.scheduled\<close> guard, so it
  stays as \<open>t_state\<close> records it until the timer fires.
\<close>

record timer =
  t_container :: nat
  t_el :: nat
  t_state :: retry
  t_delay :: nat

record container =
  recaptcha_hidden :: bool
  error_box :: "string option"
  placeholders :: "element list"

record input =
  input_type :: string
  input_name :: string
  input_value :: string

record form =
  inputs :: "input list"
  recaptcha_container :: "nat option"
  other_names :: "string list"

text \<open>
  \<open>containers\<close> are the \<^verbatim>\<open>.recaptcha-container\<close> elements of the document, named by
  their position; \<open>placeholders\<close> are the \<^verbatim>\<open>.g-recaptcha\<close> descendants of one, in
  document order; \<open>error_box\<close> is the text of its \<^verbatim>\<open>.recaptcha-error-box\<close>, if it
  has one. \<open>form\<close> is \<^verbatim>\<open>document.getElementById('contactForm')\<close>, with its
  \<^verbatim>\<open>input\<close> elements and the first container inside it; \<open>other_names\<close> are the
  ids of its inputs (those of type image left out) and the names and ids of its other
  listed elements (buttons, selects, textareas and so on) and of its images.
  \<open>submissions\<close> counts the submissions of the form: the calls of
  \<^verbatim>\<open>form.submit()\<close> that go through and the submit events the handler lets
  pass. \<open>render_log\<close> lists the calls of
  \<^verbatim>\<open>grecaptcha.render\<close>, \<open>reset_log\<close> those of \<^verbatim>\<open>grecaptcha.reset\<close>,
  \<open>next_el\<close> is the identity \<^verbatim>\<open>document.createElement\<close> gives next, and
  \<open>stack_limit\<close> is the depth of nested calls the engine allows before it throws a
  RangeError.
\<close>

record state =
  innerWidth :: int
  stack_limit :: nat
  grecaptcha :: "api option"
  render_log :: "(nat \<times> renderOptions) list"
  reset_log :: "string list"
  grecaptchaReady :: bool
  grecaptchaReadyQueue :: "nat list"
  allowSubmit :: bool
  retryState :: "nat \<Rightarrow> retry option"
  timers :: "timer list"
  scroll_timers :: "nat list"
  resizeTimer :: bool
  containers :: "container list"
  form :: "form option"
  next_el :: nat
  submissions :: nat

datatype outcome = Returned | Threw

definition BREAKPOINT :: int where "BREAKPOINT = 410"
definition MAX_RENDER_RETRIES :: nat where "MAX_RENDER_RETRIES = 5"
definition RETRY_BASE_MS :: nat where "RETRY_BASE_MS = 700"

definition desiredSize :: "state \<Rightarrow> string option" where
  "desiredSize s = (if innerWidth s < BREAKPOINT then Some ''compact'' else None)"

definition updateContainer :: "nat \<Rightarrow> (container \<Rightarrow> container) \<Rightarrow> state \<Rightarrow> state" where
  "updateContainer c f s =
     (if c < length (containers s)
      then s\<lparr>containers := (containers s)[c := f (containers s ! c)]\<rparr>
      else s)"

definition querySelector :: "nat \<Rightarrow> state \<Rightarrow> element option" where
  "querySelector c s =
     (if c < length (containers s)
      then (case placeholders (containers s ! c) of [] \<Rightarrow> None | el # _ \<Rightarrow> Some el)
      else None)"

definition showInlineError :: "nat option \<Rightarrow> string \<Rightarrow> state \<Rightarrow> state" where
  "showInlineError container text s =
     (case container of
        None \<Rightarrow> s
      | Some c \<Rightarrow> updateContainer c (\<lambda>k. k\<lparr>error_box := Some text\<rparr>) s)"

definition clearInlineError :: "nat option \<Rightarrow> state \<Rightarrow> state" where
  "clearInlineError container s =
     (case container of
        None \<Rightarrow> s
      | Some c \<Rightarrow> updateContainer c (\<lambda>k. k\<lparr>error_box := None\<rparr>) s)"

definition buildRenderOptions :: "element \<Rightarrow> string option \<Rightarrow> renderOptions" where
  "buildRenderOptions el sz =
     \<lparr>opt_sitekey = getAttribute el ''data-sitekey'',
      opt_theme = (if truthy (getAttribute el ''data-theme'') then getAttribute el ''data-theme''
                   else None),
      opt_size = (if truthy sz then sz else None)\<rparr>"

text \<open>
  \<^verbatim>\<open>parent.replaceChild(newEl, oldEl)\<close>, and a later \<^verbatim>\<open>setAttribute\<close> on a node that
  is in the document: the element with the given identity is exchanged where it stands.
\<close>

definition putElement :: "nat \<Rightarrow> element \<Rightarrow> state \<Rightarrow> state" where
  "putElement old new s =
     s\<lparr>containers :=
         map (\<lambda>k. k\<lparr>placeholders := map (\<lambda>e. if el_id e = old then new else e) (placeholders k)\<rparr>)
           (containers s)\<rparr>"

text \<open>
  Lines 86 to 94 of \<^verbatim>\<open>replaceAndMaybeRender\<close>: the new \<^verbatim>\<open>div\<close>, with the class
  name and the \<^verbatim>\<open>data-\<close> attributes of the old element and the two size attributes.
\<close>

definition createReplacement :: "element \<Rightarrow> string option \<Rightarrow> nat \<Rightarrow> element" where
  "createReplacement oldEl sz fresh =
     (let created = \<lparr>el_id = fresh,
                     className = (if className oldEl = [] then ''g-recaptcha'' else className oldEl),
                     attributes = []\<rparr>;
          copied = copyDataAttributes oldEl created;
          sized = (if truthy sz then setAttribute ''data-size'' (orEmpty sz) copied
                   else removeAttribute ''data-size'' copied)
      in setAttribute ''data-recaptcha-rendered-size'' (if truthy sz then orEmpty sz else []) sized)"

text \<open>
  \<^verbatim>\<open>replaceAndMaybeRender\<close> is only called on an element \<^verbatim>\<open>querySelector\<close> has just
  found, so \<^verbatim>\<open>oldEl.parentNode\<close> is never null. The result is \<^verbatim>\<open>res.el\<close> and
  \<^verbatim>\<open>res.widgetId\<close> (\<open>None\<close> for null).
\<close>

record render_res =
  res_el :: element
  res_widgetId :: "nat option"

definition replaceAndMaybeRender ::
  "element \<Rightarrow> string option \<Rightarrow> state \<Rightarrow> render_res \<times> state" where
  "replaceAndMaybeRender oldEl sz s =
     (let newEl = createReplacement oldEl sz (next_el s);
          s1 = putElement (el_id oldEl) newEl (s\<lparr>next_el := Suc (next_el s)\<rparr>)
      in (case grecaptcha s1 of
            None \<Rightarrow> (\<lparr>res_el = newEl, res_widgetId = None\<rparr>, s1)
          | Some g \<Rightarrow>
              (let opts = buildRenderOptions newEl sz;
                   s2 = s1\<lparr>render_log := render_log s1 @ [(el_id newEl, opts)]\<rparr>
               in (case render g (length (render_log s1)) of
                     WidgetId w \<Rightarrow>
                       (let marked = setAttribute ''data-recaptcha-widget-id'' (string_of_nat w) newEl
                        in (\<lparr>res_el = marked, res_widgetId = Some w\<rparr>,
                            putElement (el_id newEl) marked s2))
                   | RenderThrows \<Rightarrow> (\<lparr>res_el = newEl, res_widgetId = None\<rparr>, s2)))))"

definition maxRetriesMessage :: string where
  "maxRetriesMessage =
     ''reCAPTCHA failed to load. Please disable adblockers or check your network/permissions.''"

text \<open>\<^verbatim>\<open>retryState.get(el) || { attempts: 0, scheduled: false }\<close>\<close>

definition retryOf :: "state \<Rightarrow> nat \<Rightarrow> retry" where
  "retryOf s e =
     (case retryState s e of
        Some r \<Rightarrow> r
      | None \<Rightarrow> \<lparr>attempts = 0, scheduled = False\<rparr>)"

definition scheduleRenderAttempt :: "nat option \<Rightarrow> state \<Rightarrow> state" where
  "scheduleRenderAttempt container s =
     (case container of
        None \<Rightarrow> s
      | Some c \<Rightarrow>
          (case querySelector c s of
             None \<Rightarrow> s
           | Some el \<Rightarrow>
               (let st = retryOf s (el_id el)
                in if scheduled st then s
                   else if attempts st \<ge> MAX_RENDER_RETRIES
                   then (showInlineError container maxRetriesMessage s)
                          \<lparr>retryState := (retryState s)(el_id el \<mapsto> st)\<rparr>
                   else (let delay = RETRY_BASE_MS * 2 ^ attempts st;
                             st' = st\<lparr>scheduled := True, attempts := attempts st + 1\<rparr>
                         in s\<lparr>retryState := (retryState s)(el_id el \<mapsto> st'),
                              timers := timers s @
                                [\<lparr>t_container = c, t_el = el_id el, t_state = st',
                                  t_delay = delay\<rparr>]\<rparr>))))"

text \<open>
  \<^verbatim>\<open>whenGrecaptchaReady(fn)\<close>: \<open>fn\<close> is always the closure
  \<^verbatim>\<open>() => attemptRender(container, callbacks)\<close>; \<open>run\<close> is what calling it does and
  \<open>c\<close> the container it keeps, which is what the queue stores.
\<close>

definition whenGrecaptchaReady ::
  "(state \<Rightarrow> outcome \<times> state) \<Rightarrow> nat \<Rightarrow> state \<Rightarrow> outcome \<times> state" where
  "whenGrecaptchaReady run c s =
     (if grecaptchaReady s then run s
      else (Returned, s\<lparr>grecaptchaReadyQueue := grecaptchaReadyQueue s @ [c]\<rparr>))"

text \<open>
  \<^verbatim>\<open>attemptRender\<close> calls itself through \<^verbatim>\<open>whenGrecaptchaReady\<close> when the ready
  flag is set while \<^verbatim>\<open>grecaptcha.render\<close> is missing. The first argument is the
  number of nested calls the engine still allows; at 0 the call throws (RangeError),
  and nothing on that path catches it.
\<close>

primrec attemptRender_depth :: "nat \<Rightarrow> nat option \<Rightarrow> state \<Rightarrow> outcome \<times> state" where
  "attemptRender_depth 0 container s = (Threw, s)"
| "attemptRender_depth (Suc d) container s =
     (case container of
        None \<Rightarrow> (Returned, s)
      | Some c \<Rightarrow>
          (let s1 = clearInlineError container s
           in (case querySelector c s1 of
                 None \<Rightarrow> (Returned, s1)
               | Some current \<Rightarrow>
                   if truthy (getAttribute current ''data-recaptcha-widget-id'')
                      \<and> grecaptcha s1 \<noteq> None
                   then (Returned, s1)
                   else if grecaptcha s1 \<noteq> None
                   then (case replaceAndMaybeRender current (desiredSize s1) s1 of
                           (res, s2) \<Rightarrow>
                             if res_widgetId res \<noteq> None
                             then (Returned,
                                   clearInlineError container
                                     (s2\<lparr>retryState := (retryState s2)(el_id (res_el res) := None)\<rparr>))
                             else (Returned, scheduleRenderAttempt container s2))
                   else (case whenGrecaptchaReady (attemptRender_depth d container) c s1 of
                           (r, s2) \<Rightarrow>
                             if r = Threw then (Threw, s2)
                             else (Returned, scheduleRenderAttempt container s2)))))"

definition attemptRender :: "nat option \<Rightarrow> state \<Rightarrow> outcome \<times> state" where
  "attemptRender container s = attemptRender_depth (Suc (stack_limit s)) container s"

text \<open>The callback of the timer \<^verbatim>\<open>scheduleRenderAttempt\<close> sets.\<close>

definition markUnscheduled :: "timer \<Rightarrow> state \<Rightarrow> state" where
  "markUnscheduled t s =
     s\<lparr>retryState := (retryState s)(t_el t \<mapsto> (t_state t)\<lparr>scheduled := False\<rparr>)\<rparr>"

definition retryTimerFires :: "timer \<Rightarrow> state \<Rightarrow> outcome \<times> state" where
  "retryTimerFires t s = attemptRender (Some (t_container t)) (markUnscheduled t s)"

text \<open>
  \<^verbatim>\<open>onRecaptchaApiLoaded\<close>: the loop shifts the queue until it is empty; what a queued
  closure throws is caught and logged. The loop is written as it stands, so whether it
  ends is a theorem.
\<close>

partial_function (option) drainReadyQueue :: "state \<Rightarrow> state option" where
  "drainReadyQueue s =
     (case grecaptchaReadyQueue s of
        [] \<Rightarrow> Some s
      | c # rest \<Rightarrow>
          drainReadyQueue (snd (attemptRender (Some c) (s\<lparr>grecaptchaReadyQueue := rest\<rparr>))))"

definition onRecaptchaApiLoaded :: "state \<Rightarrow> state option" where
  "onRecaptchaApiLoaded s = drainReadyQueue (s\<lparr>grecaptchaReady := True\<rparr>)"

subsection \<open>The widget's callbacks and the submit handler\<close>

fun setFirstValue :: "string \<Rightarrow> string \<Rightarrow> input list \<Rightarrow> input list" where
  "setFirstValue name v [] = []"
| "setFirstValue name v (i # rest) =
     (if input_name i = name then i\<lparr>input_value := v\<rparr> # rest
      else i # setFirstValue name v rest)"

text \<open>
  \<^verbatim>\<open>form.submit\<close> is the method of the form only if nothing in the form goes by that
  name: a listed element (an input of type image excepted) or an image whose name or
  id is \<^verbatim>\<open>submit\<close> takes its place, and the call \<^verbatim>\<open>form.submit()\<close> throws a
  TypeError. Where it is the method, the form is submitted without a submit event, so
  \<^verbatim>\<open>onSubmitForm\<close> is not run by it.
\<close>

definition submitShadowed :: "form \<Rightarrow> bool" where
  "submitShadowed f =
     (list_ex (\<lambda>i. input_name i = ''submit'' \<and> input_type i \<noteq> ''image'') (inputs f)
      \<or> ''submit'' \<in> set (other_names f))"

definition formSubmit :: "form \<Rightarrow> state \<Rightarrow> outcome \<times> state" where
  "formSubmit f s =
     (if submitShadowed f then (Threw, s)
      else (Returned, s\<lparr>submissions := Suc (submissions s)\<rparr>))"

text \<open>
  \<^verbatim>\<open>form.querySelector('input[name="g-recaptcha-response"]')\<close> is the first input of
  that name; \<^verbatim>\<open>form.appendChild\<close> puts a new one last.
\<close>

definition onRecaptchaSuccess :: "string \<Rightarrow> state \<Rightarrow> outcome \<times> state" where
  "onRecaptchaSuccess token s =
     (case form s of
        None \<Rightarrow> (Returned, s)
      | Some f \<Rightarrow>
          (let present = (if list_ex (\<lambda>i. input_name i = ''g-recaptcha-response'') (inputs f)
                          then inputs f
                          else inputs f @
                            [\<lparr>input_type = ''hidden'', input_name = ''g-recaptcha-response'',
                              input_value = []\<rparr>]);
               f' = f\<lparr>inputs := setFirstValue ''g-recaptcha-response'' token present\<rparr>
           in formSubmit f' (s\<lparr>form := Some f', allowSubmit := True\<rparr>)))"

definition onRecaptchaExpired :: "state \<Rightarrow> state" where
  "onRecaptchaExpired s =
     (case form s of
        None \<Rightarrow> s
      | Some f \<Rightarrow>
          (let s1 = showInlineError (recaptcha_container f)
                      ''reCAPTCHA expired. Please try again.'' s
           in (case recaptcha_container f of
                 None \<Rightarrow> s1
               | Some c \<Rightarrow>
                   (case querySelector c s1 of
                      None \<Rightarrow> s1
                    | Some el \<Rightarrow>
                        if truthy (getAttribute el ''data-recaptcha-widget-id'')
                           \<and> grecaptcha s1 \<noteq> None
                        then s1\<lparr>reset_log := reset_log s1 @
                                 [orEmpty (getAttribute el ''data-recaptcha-widget-id'')]\<rparr>
                        else s1))))"

definition onRecaptchaError :: "state \<Rightarrow> state" where
  "onRecaptchaError s =
     (let container = (case form s of None \<Rightarrow> None | Some f \<Rightarrow> recaptcha_container f)
      in scheduleRenderAttempt container
           (showInlineError container ''reCAPTCHA error occurred. Please try again.'' s))"

text \<open>
  What a run of the inline handler \<^verbatim>\<open>onsubmit="return onSubmitForm(event)"\<close> leaves:
  whether \<^verbatim>\<open>event.preventDefault()\<close> was called, and the value returned (\<open>None\<close>
  when the handler threw). The browser goes on with the native submission unless the
  default was prevented or the handler returned false.
\<close>

record submit_outcome =
  defaultPrevented :: bool
  returnValue :: "bool option"

definition proceeds :: "submit_outcome \<Rightarrow> bool" where
  "proceeds out = (\<not> defaultPrevented out \<and> returnValue out \<noteq> Some False)"

definition containerHidden :: "nat \<Rightarrow> state \<Rightarrow> bool" where
  "containerHidden c s = (c < length (containers s) \<and> recaptcha_hidden (containers s ! c))"

text \<open>
  Lines 258 to 263 of \<^verbatim>\<open>onSubmitForm\<close>: a hidden container is shown, and a timer is
  set that scrolls it into view.
\<close>

definition revealContainer :: "nat \<Rightarrow> state \<Rightarrow> state" where
  "revealContainer c s =
     (if containerHidden c s
      then (updateContainer c (\<lambda>k. k\<lparr>recaptcha_hidden := False\<rparr>) s)
             \<lparr>scroll_timers := scroll_timers s @ [c]\<rparr>
      else s)"

text \<open>
  \<open>cancelable\<close>: the handler was given an event whose \<^verbatim>\<open>preventDefault\<close> is a
  function, as every submit event is.
\<close>

definition onSubmitForm :: "bool \<Rightarrow> state \<Rightarrow> submit_outcome \<times> state" where
  "onSubmitForm cancelable s =
     (if allowSubmit s
      then (\<lparr>defaultPrevented = False, returnValue = Some True\<rparr>, s\<lparr>allowSubmit := False\<rparr>)
      else (case form s of
              None \<Rightarrow> (\<lparr>defaultPrevented = cancelable, returnValue = Some False\<rparr>, s)
            | Some f \<Rightarrow>
                (case recaptcha_container f of
                   None \<Rightarrow>
                     (case formSubmit f s of
                        (r, s1) \<Rightarrow>
                          (\<lparr>defaultPrevented = cancelable,
                            returnValue = (if r = Threw then None else Some False)\<rparr>, s1))
                 | Some c \<Rightarrow>
                     (let s1 = revealContainer c s
                      in (case attemptRender (Some c) s1 of
                            (r, s2) \<Rightarrow>
                              (\<lparr>defaultPrevented = cancelable,
                                returnValue = (if r = Threw then None else Some False)\<rparr>, s2))))))"

subsection \<open>Responsive behaviour\<close>

fun findContainer :: "nat \<Rightarrow> container list \<Rightarrow> nat \<Rightarrow> nat option" where
  "findContainer e [] i = None"
| "findContainer e (k # ks) i =
     (if list_ex (\<lambda>x. el_id x = e) (placeholders k) then Some i
      else findContainer e ks (Suc i))"

text \<open>
  \<^verbatim>\<open>el.closest('.recaptcha-container')\<close>: the container the element stands in now,
  null once the element has been replaced.
\<close>

definition closestContainer :: "nat \<Rightarrow> state \<Rightarrow> nat option" where
  "closestContainer e s = findContainer e (containers s) 0"

text \<open>
  The body of \<^verbatim>\<open>captchas.forEach\<close> over the static list \<^verbatim>\<open>querySelectorAll\<close>
  returned; \<open>sz\<close> is \<^verbatim>\<open>desiredSize()\<close>, read once before the loop. What
  \<^verbatim>\<open>attemptRender\<close> throws ends the loop.
\<close>

fun forEachCaptcha :: "string option \<Rightarrow> element list \<Rightarrow> state \<Rightarrow> outcome \<times> state" where
  "forEachCaptcha sz [] s = (Returned, s)"
| "forEachCaptcha sz (el # rest) s =
     (let applied = orEmpty (getAttribute el ''data-recaptcha-rendered-size'');
          desiredNorm = (case sz of None \<Rightarrow> [] | Some v \<Rightarrow> v);
          currentAttrSize = orEmpty (getAttribute el ''data-size'')
      in if applied = desiredNorm \<and> currentAttrSize = (if truthy sz then orEmpty sz else [])
         then forEachCaptcha sz rest s
         else (case closestContainer (el_id el) s of
                 None \<Rightarrow> forEachCaptcha sz rest s
               | Some c \<Rightarrow>
                   (case attemptRender (Some c) s of
                      (r, s') \<Rightarrow>
                        if r = Threw then (Threw, s') else forEachCaptcha sz rest s')))"

definition applyCompact :: "state \<Rightarrow> outcome \<times> state" where
  "applyCompact s =
     forEachCaptcha (desiredSize s) (concat (map placeholders (containers s))) s"

definition onResize :: "state \<Rightarrow> state" where
  "onResize s = s\<lparr>resizeTimer := True\<rparr>"

subsection \<open>Events\<close>

text \<open>
  What the browser can do to the page between two runs of the script's code: a submit
  event on the form, a pending timer firing, Google's script defining
  \<^verbatim>\<open>window.grecaptcha\<close> or calling the onload hook, a resize to a new width, and the
  widget calling one of its three callbacks. \<open>handle\<close> gives the state after the
  handler has run; \<open>None\<close> if the handler does not return.
\<close>

datatype event =
    Submit
  | RetryTimer nat
  | ScrollTimer
  | ApiDefined api
  | ApiLoaded
  | Resize int
  | ResizeTimer
  | DOMContentLoaded
  | Solved string
  | Expired
  | Errored

definition handle :: "event \<Rightarrow> state \<Rightarrow> state option" where
  "handle ev s =
     (case ev of
        Submit \<Rightarrow>
          (case onSubmitForm True s of
             (out, s') \<Rightarrow>
               Some (if proceeds out then s'\<lparr>submissions := Suc (submissions s')\<rparr> else s'))
      | RetryTimer i \<Rightarrow>
          (if i < length (timers s)
           then Some (snd (retryTimerFires (timers s ! i)
                             (s\<lparr>timers := take i (timers s) @ drop (Suc i) (timers s)\<rparr>)))
           else Some s)
      | ScrollTimer \<Rightarrow> Some (s\<lparr>scroll_timers := tl (scroll_timers s)\<rparr>)
      | ApiDefined g \<Rightarrow> Some (s\<lparr>grecaptcha := Some g\<rparr>)
      | ApiLoaded \<Rightarrow> onRecaptchaApiLoaded s
      | Resize w \<Rightarrow> Some (onResize (s\<lparr>innerWidth := w\<rparr>))
      | ResizeTimer \<Rightarrow>
          (if resizeTimer s then Some (snd (applyCompact (s\<lparr>resizeTimer := False\<rparr>)))
           else Some s)
      | DOMContentLoaded \<Rightarrow> Some (snd (applyCompact s))
      | Solved token \<Rightarrow> Some (snd (onRecaptchaSuccess token s))
      | Expired \<Rightarrow> Some (onRecaptchaExpired s)
      | Errored \<Rightarrow> Some (onRecaptchaError s))"

fun run :: "event list \<Rightarrow> state \<Rightarrow> state option" where
  "run [] s = Some s"
| "run (ev # evs) s = (case handle ev s of None \<Rightarrow> None | Some s' \<Rightarrow> run evs s')"

text \<open>
  The page as the script finds it when it starts: its variables as declared, no timer
  set, and every placeholder a node made before. The script ends with a call of
  \<^verbatim>\<open>applyCompact()\<close>.
\<close>

definition fresh_page :: "state \<Rightarrow> bool" where
  "fresh_page s =
     (\<not> grecaptchaReady s \<and> grecaptchaReadyQueue s = [] \<and> \<not> allowSubmit s
      \<and> retryState s = Map.empty \<and> timers s = [] \<and> scroll_timers s = []
      \<and> \<not> resizeTimer s \<and> render_log s = [] \<and> reset_log s = [] \<and> submissions s = 0
      \<and> list_all (\<lambda>k. list_all (\<lambda>e. el_id e < next_el s) (placeholders k)) (containers s))"

inductive reachable :: "state \<Rightarrow> bool" where
  loaded: "fresh_page s \<Longrightarrow> reachable (snd (applyCompact s))"
| after: "reachable s \<Longrightarrow> handle ev s = Some s' \<Longrightarrow> reachable s'"

text \<open>
  Each closure of a list called once, first to last, whatever it throws: the queue
  stands at the closures that follow while one runs.
\<close>

fun runEachOnce :: "nat list \<Rightarrow> state \<Rightarrow> state" where
  "runEachOnce [] s = s"
| "runEachOnce (c # rest) s =
     runEachOnce rest (snd (attemptRender (Some c) (s\<lparr>grecaptchaReadyQueue := rest\<rparr>)))"

text \<open>
  The attempt count \<^verbatim>\<open>scheduleRenderAttempt\<close> reads for a container: that of the
  element \<^verbatim>\<open>container.querySelector('.g-recaptcha')\<close> finds.
\<close>

definition placeholderAttempts :: "nat \<Rightarrow> state \<Rightarrow> nat" where
  "placeholderAttempts c s =
     (case querySelector c s of
        None \<Rightarrow> 0
      | Some el \<Rightarrow> attempts (retryOf s (el_id el)))"

subsection \<open>An example page\<close>

definition widget_div :: element where
  "widget_div =
     \<lparr>el_id = 0, className = ''g-recaptcha'',
      attributes = [(''data-sitekey'', ''SITEKEY''), (''data-theme'', ''dark'')]\<rparr>"

definition contact_page :: state where
  "contact_page =
     \<lparr>innerWidth = 1280, stack_limit = 10000, grecaptcha = None, render_log = [],
      reset_log = [], grecaptchaReady = False, grecaptchaReadyQueue = [],
      allowSubmit = False, retryState = Map.empty, timers = [], scroll_timers = [],
      resizeTimer = False,
      containers = [\<lparr>recaptcha_hidden = True, error_box = None, placeholders = [widget_div]\<rparr>],
      form = Some \<lparr>inputs = [\<lparr>input_type = ''email'', input_name = ''email'',
                                input_value = ''me@example.org''\<rparr>],
                    recaptcha_container = Some 0, other_names = []\<rparr>,
      next_el = 1, submissions = 0\<rparr>"

definition failing_api :: api where
  "failing_api = \<lparr>render = (\<lambda>k. RenderThrows), getResponse = (\<lambda>w. [])\<rparr>"

definition working_api :: api where
  "working_api = \<lparr>render = (\<lambda>k. WidgetId k), getResponse = (\<lambda>w. [])\<rparr>"

text \<open>What one sees of the state after each event of a list.\<close>

fun observe :: "(state \<Rightarrow> 'a) \<Rightarrow> event list \<Rightarrow> state \<Rightarrow> 'a list" where
  "observe f [] s = []"
| "observe f (ev # evs) s =
     (case handle ev s of
        None \<Rightarrow> []
      | Some s' \<Rightarrow> f s' # observe f evs s')"

text \<open>The example page once Google's script has loaded, with a \<^verbatim>\<open>render\<close> that throws.\<close>

definition failing_page :: state where
  "failing_page = contact_page\<lparr>grecaptcha := Some failing_api\<rparr>"

text \<open>A page with three containers, each with one placeholder, on a narrow screen.\<close>

definition three_widgets_page :: state where
  "three_widgets_page =
     contact_page
       \<lparr>innerWidth := 360,
        containers :=
          [\<lparr>recaptcha_hidden = False, error_box = None, placeholders = [widget_div]\<rparr>,
           \<lparr>recaptcha_hidden = False, error_box = None,
             placeholders = [widget_div\<lparr>el_id := 1\<rparr>]\<rparr>,
           \<lparr>recaptcha_hidden = False, error_box = None,
             placeholders = [widget_div\<lparr>el_id := 2\<rparr>]\<rparr>],
        form := Some \<lparr>inputs = [], recaptcha_container = Some 2, other_names = []\<rparr>,
        next_el := 3\<rparr>"

text \<open>An API whose second \<^verbatim>\<open>render\<close> call throws.\<close>

definition flaky_api :: api where
  "flaky_api =
     \<lparr>render = (\<lambda>k. if k = 1 then RenderThrows else WidgetId k), getResponse = (\<lambda>w. [])\<rparr>"

text \<open>
  The page with three containers after \<^verbatim>\<open>applyCompact\<close> has run on it while
  \<^verbatim>\<open>grecaptcha\<close> is missing, and the widget of the form has reported an error.
\<close>

definition queued_page :: state where
  "queued_page =
     three_widgets_page
       \<lparr>grecaptchaReadyQueue := [0, 1, 2],
        retryState := [0 \<mapsto> \<lparr>attempts = 1, scheduled = True\<rparr>,
                       1 \<mapsto> \<lparr>attempts = 1, scheduled = True\<rparr>,
                       2 \<mapsto> \<lparr>attempts = 1, scheduled = True\<rparr>],
        timers :=
          [\<lparr>t_container = 0, t_el = 0, t_state = \<lparr>attempts = 1, scheduled = True\<rparr>,
             t_delay = 700\<rparr>,
           \<lparr>t_container = 1, t_el = 1, t_state = \<lparr>attempts = 1, scheduled = True\<rparr>,
             t_delay = 700\<rparr>,
           \<lparr>t_container = 2, t_el = 2, t_state = \<lparr>attempts = 1, scheduled = True\<rparr>,
             t_delay = 700\<rparr>],
        containers :=
          [\<lparr>recaptcha_hidden = False, error_box = None, placeholders = [widget_div]\<rparr>,
           \<lparr>recaptcha_hidden = False, error_box = None,
             placeholders = [widget_div\<lparr>el_id := 1\<rparr>]\<rparr>,
           \<lparr>recaptcha_hidden = False,
             error_box = Some ''reCAPTCHA error occurred. Please try again.'',
             placeholders = [widget_div\<lparr>el_id := 2\<rparr>]\<rparr>]\<rparr>"

text \<open>
  The example page after a submit while \<^verbatim>\<open>grecaptcha\<close> is missing, and the same page
  after Google's script has loaded and called the onload hook: the widget is rendered
  at normal size and the retry timer of the submit is still pending.
\<close>

definition submitted_page :: state where
  "submitted_page =
     contact_page
       \<lparr>grecaptchaReadyQueue := [0],
        retryState := [0 \<mapsto> \<lparr>attempts = 1, scheduled = True\<rparr>],
        timers := [\<lparr>t_container = 0, t_el = 0, t_state = \<lparr>attempts = 1, scheduled = True\<rparr>,
                    t_delay = 700\<rparr>],
        scroll_timers := [0],
        containers := [\<lparr>recaptcha_hidden = False, error_box = None,
                         placeholders = [widget_div]\<rparr>]\<rparr>"

definition rendered_div :: element where
  "rendered_div =
     \<lparr>el_id = 1, className = ''g-recaptcha'',
      attributes = [(''data-sitekey'', ''SITEKEY''), (''data-theme'', ''dark''),
                    (''data-recaptcha-rendered-size'', []),
                    (''data-recaptcha-widget-id'', ''0'')]\<rparr>"

definition rendered_page :: state where
  "rendered_page =
     submitted_page
       \<lparr>grecaptcha := Some working_api,
        render_log := [(1, \<lparr>opt_sitekey = Some ''SITEKEY'', opt_theme = Some ''dark'',
                             opt_size = None\<rparr>)],
        grecaptchaReady := True,
        grecaptchaReadyQueue := [],
        containers := [\<lparr>recaptcha_hidden = False, error_box = None,
                         placeholders = [rendered_div]\<rparr>],
        next_el := 2\<rparr>"

text \<open>The submitted page after its retry timer has fired once, \<^verbatim>\<open>grecaptcha\<close> still missing.\<close>

definition retried_page :: state where
  "retried_page =
     submitted_page
       \<lparr>grecaptchaReadyQueue := [0, 0],
        retryState := [0 \<mapsto> \<lparr>attempts = 2, scheduled = True\<rparr>],
        timers := [\<lparr>t_container = 0, t_el = 0, t_state = \<lparr>attempts = 2, scheduled = True\<rparr>,
                    t_delay = 1400\<rparr>]\<rparr>"

section \<open>The submit handler of form.js\<close>

text \<open>
  form.js keeps its own variables and defines \<^verbatim>\<open>window.onSubmitForm\<close> as well. Its
  page: the first \<^verbatim>\<open>.recaptcha-container\<close> of the document with its two visibility
  classes, the first \<^verbatim>\<open>.g-recaptcha\<close> inside a container, and the contact form.
\<close>

record challenge =
  has_hidden_class :: bool
  has_visible_class :: bool

record form_state =
  recaptchaWidgetId :: "nat option"
  recaptchaRenderedSize :: "string option"
  pendingForm :: "nat option"
  apiLoaded :: bool
  fj_grecaptcha :: "api option"
  fj_render_log :: "(nat \<times> renderOptions) list"
  challenge_container :: "challenge option"
  challenge_widget :: "element option"
  contactForm :: "nat option"
  polls :: nat
  scrolls :: nat
  fj_submissions :: nat

record submit_event =
  ev_target :: "nat option"

text \<open>
  While \<^verbatim>\<open>grecaptcha.render\<close> is missing \<^verbatim>\<open>renderRecaptchaIfNeeded\<close> starts an interval
  that polls for it (\<open>polls\<close> counts them).
\<close>

definition renderRecaptchaIfNeeded :: "form_state \<Rightarrow> form_state" where
  "renderRecaptchaIfNeeded s =
     (if recaptchaWidgetId s \<noteq> None then s
      else (case challenge_widget s of
              None \<Rightarrow> s
            | Some el \<Rightarrow>
                (case fj_grecaptcha s of
                   None \<Rightarrow> s\<lparr>polls := Suc (polls s)\<rparr>
                 | Some g \<Rightarrow>
                     (let theme = (if truthy (getAttribute el ''data-theme'')
                                   then getAttribute el ''data-theme'' else Some ''light'');
                          sizeAttr = (if truthy (getAttribute el ''data-size'')
                                      then getAttribute el ''data-size'' else None);
                          opts = \<lparr>opt_sitekey = getAttribute el ''data-sitekey'',
                                  opt_theme = theme, opt_size = sizeAttr\<rparr>;
                          s1 = s\<lparr>fj_render_log := fj_render_log s @ [(el_id el, opts)]\<rparr>
                      in (case render g (length (fj_render_log s)) of
                            WidgetId w \<Rightarrow>
                              s1\<lparr>recaptchaWidgetId := Some w,
                                 recaptchaRenderedSize :=
                                   (if sizeAttr \<noteq> None then sizeAttr
                                    else recaptchaRenderedSize s)\<rparr>
                          | RenderThrows \<Rightarrow> s1)))))"

definition showRecaptcha :: "form_state \<Rightarrow> form_state" where
  "showRecaptcha s =
     (case challenge_container s of
        None \<Rightarrow> s
      | Some k \<Rightarrow>
          (let s1 = renderRecaptchaIfNeeded
                      (s\<lparr>challenge_container :=
                           Some (k\<lparr>has_hidden_class := False, has_visible_class := True\<rparr>)\<rparr>)
           in s1\<lparr>scrolls := Suc (scrolls s1)\<rparr>))"

text \<open>
  Lines 125 to 131 of form.js: a widget is rendered, \<^verbatim>\<open>grecaptcha.getResponse\<close> is
  there, and the response of the widget is not empty.
\<close>

definition hasResponse :: "form_state \<Rightarrow> bool" where
  "hasResponse s =
     (case recaptchaWidgetId s of
        None \<Rightarrow> False
      | Some w \<Rightarrow> (case fj_grecaptcha s of None \<Rightarrow> False | Some g \<Rightarrow> getResponse g w \<noteq> []))"

definition onSubmitForm_form :: "submit_event \<Rightarrow> form_state \<Rightarrow> submit_outcome \<times> form_state" where
  "onSubmitForm_form ev s =
     (case (case ev_target ev of Some f \<Rightarrow> Some f | None \<Rightarrow> contactForm s) of
        None \<Rightarrow> (\<lparr>defaultPrevented = False, returnValue = Some True\<rparr>, s)
      | Some f \<Rightarrow>
          if hasResponse s
          then (\<lparr>defaultPrevented = False, returnValue = Some True\<rparr>, s)
          else (\<lparr>defaultPrevented = True, returnValue = Some False\<rparr>,
                showRecaptcha (s\<lparr>pendingForm := Some f\<rparr>)))"

text \<open>
  Submit events on the form, one after another: the browser submits the form after
  each one the handler lets pass.
\<close>

fun submitEvents :: "submit_event list \<Rightarrow> form_state \<Rightarrow> form_state" where
  "submitEvents [] s = s"
| "submitEvents (ev # evs) s =
     (case onSubmitForm_form ev s of
        (out, s') \<Rightarrow>
          submitEvents evs
            (if proceeds out then s'\<lparr>fj_submissions := Suc (fj_submissions s')\<rparr> else s'))"

text \<open>A page of form.js with the container hidden and nothing rendered yet.\<close>

definition form_js_page :: form_state where
  "form_js_page =
     \<lparr>recaptchaWidgetId = None, recaptchaRenderedSize = None, pendingForm = None,
      apiLoaded = True, fj_grecaptcha = Some working_api, fj_render_log = [],
      challenge_container = Some \<lparr>has_hidden_class = True, has_visible_class = False\<rparr>,
      challenge_widget = Some widget_div, contactForm = Some 9,
      polls = 0, scrolls = 0,
      fj_submissions = 0\<rparr>"

text \<open>An API whose widgets are all solved.\<close>

definition solved_api :: api where
  "solved_api = \<lparr>render = (\<lambda>k. WidgetId k), getResponse = (\<lambda>w. ''TOKEN123'')\<rparr>"

text \<open>
  The example page with its widget rendered and solved, after the success callback has
  run and the next submit has passed.
\<close>

definition solved_page :: state where
  "solved_page =
     snd (onSubmitForm True
            (snd (onRecaptchaSuccess ''TOKEN123''
                    (rendered_page\<lparr>grecaptcha := Some solved_api\<rparr>))))"

section \<open>Invariants of the coordinator\<close>

text \<open>
  Every pending retry timer belongs to a different element, that element's entry in
  \<^verbatim>\<open>retryState\<close> is the timer's state object with \<^verbatim>\<open>scheduled\<close> set, and elements are
  older than the next one to be created.
\<close>

definition timer_inv :: "state \<Rightarrow> bool" where
  "timer_inv s =
     (distinct (map t_el (timers s))
      \<and> (\<forall>t \<in> set (timers s).
            retryState s (t_el t) = Some (t_state t) \<and> scheduled (t_state t)
            \<and> t_el t < next_el s)
      \<and> (\<forall>e \<in> set (concat (map placeholders (containers s))). el_id e < next_el s))"

text \<open>
  The state of the example page between two failed renders: one timer of 700 ms on the
  current placeholder, no widget id, no error message, no retry state for elements yet to
  be created.
\<close>

definition retrying_from_base :: "state \<Rightarrow> bool" where
  "retrying_from_base s =
     (\<exists>cur t. grecaptcha s = Some failing_api \<and> querySelector 0 s = Some cur
        \<and> ''data-recaptcha-widget-id'' \<notin> fst ` set (attributes cur)
        \<and> timers s = [t] \<and> t_container t = 0 \<and> t_delay t = 700 \<and> t_el t < next_el s
        \<and> (\<forall>e \<ge> next_el s. retryState s e = None)
        \<and> map error_box (containers s) = [None])"

text \<open>
  A state of a page whose \<^verbatim>\<open>render\<close> throws on every call: the placeholder of the
  first container has no widget id, the form has that container, the flag is not set,
  every timer is for a node made before, and no node yet to be made has retry state.
\<close>

definition render_failing :: "state \<Rightarrow> bool" where
  "render_failing s =
     (\<exists>cur f. grecaptcha s = Some failing_api \<and> querySelector 0 s = Some cur
        \<and> ''data-recaptcha-widget-id'' \<notin> fst ` set (attributes cur)
        \<and> (\<forall>e \<ge> next_el s. retryState s e = None)
        \<and> (\<forall>t \<in> set (timers s). t_el t < next_el s)
        \<and> \<not> allowSubmit s \<and> form s = Some f \<and> recaptcha_container f = Some 0)"

text \<open>
  The timer \<^verbatim>\<open>scheduleRenderAttempt\<close> sets for a node that has no retry state yet.
\<close>

definition first_timer :: "nat \<Rightarrow> timer" where
  "first_timer e =
     \<lparr>t_container = 0, t_el = e, t_state = \<lparr>attempts = 1, scheduled = True\<rparr>,
      t_delay = 700\<rparr>"

text \<open>What decides a submit, and the count of submissions so far.\<close>

definition submit_gate :: "state \<Rightarrow> form option \<times> bool \<times> nat" where
  "submit_gate s = (form s, allowSubmit s, submissions s)"

section \<open>Properties of the coordinator\<close>

subsection \<open>Frame conditions of the helpers\<close>

lemma retry_updates [simp]:
  "r\<lparr>scheduled := b, attempts := a\<rparr> = \<lparr>attempts = a, scheduled = b\<rparr>"
  by (cases r) simp

lemma updateContainer_frame [simp]:
  "grecaptchaReady (updateContainer c f s) = grecaptchaReady s"
  "grecaptchaReadyQueue (updateContainer c f s) = grecaptchaReadyQueue s"
  "grecaptcha (updateContainer c f s) = grecaptcha s"
  "retryState (updateContainer c f s) = retryState s"
  "timers (updateContainer c f s) = timers s"
  "next_el (updateContainer c f s) = next_el s"
  "render_log (updateContainer c f s) = render_log s"
  "innerWidth (updateContainer c f s) = innerWidth s"
  "stack_limit (updateContainer c f s) = stack_limit s"
  "allowSubmit (updateContainer c f s) = allowSubmit s"
  "submissions (updateContainer c f s) = submissions s"
  "form (updateContainer c f s) = form s"
  by (simp_all add: updateContainer_def)

lemma updateContainer_placeholders:
  assumes "\<And>k. placeholders (f k) = placeholders k"
  shows "map placeholders (containers (updateContainer c f s)) = map placeholders (containers s)"
  using assms by (simp add: updateContainer_def map_update list_update_same_conv)

lemma clearInlineError_frame [simp]:
  "grecaptchaReady (clearInlineError c s) = grecaptchaReady s"
  "grecaptchaReadyQueue (clearInlineError c s) = grecaptchaReadyQueue s"
  "grecaptcha (clearInlineError c s) = grecaptcha s"
  "retryState (clearInlineError c s) = retryState s"
  "timers (clearInlineError c s) = timers s"
  "next_el (clearInlineError c s) = next_el s"
  "render_log (clearInlineError c s) = render_log s"
  "innerWidth (clearInlineError c s) = innerWidth s"
  "stack_limit (clearInlineError c s) = stack_limit s"
  "allowSubmit (clearInlineError c s) = allowSubmit s"
  "submissions (clearInlineError c s) = submissions s"
  "form (clearInlineError c s) = form s"
  "map placeholders (containers (clearInlineError c s)) = map placeholders (containers s)"
  by (simp_all add: clearInlineError_def updateContainer_placeholders split: option.splits)

lemma showInlineError_frame [simp]:
  "grecaptchaReady (showInlineError c m s) = grecaptchaReady s"
  "grecaptchaReadyQueue (showInlineError c m s) = grecaptchaReadyQueue s"
  "grecaptcha (showInlineError c m s) = grecaptcha s"
  "retryState (showInlineError c m s) = retryState s"
  "timers (showInlineError c m s) = timers s"
  "next_el (showInlineError c m s) = next_el s"
  "render_log (showInlineError c m s) = render_log s"
  "innerWidth (showInlineError c m s) = innerWidth s"
  "stack_limit (showInlineError c m s) = stack_limit s"
  "allowSubmit (showInlineError c m s) = allowSubmit s"
  "submissions (showInlineError c m s) = submissions s"
  "form (showInlineError c m s) = form s"
  "map placeholders (containers (showInlineError c m s)) = map placeholders (containers s)"
  by (simp_all add: showInlineError_def updateContainer_placeholders split: option.splits)

lemma querySelector_placeholders:
  "map placeholders (containers s') = map placeholders (containers s)
   \<Longrightarrow> querySelector c s' = querySelector c s"
  unfolding querySelector_def
  by (metis length_map nth_map)

lemma querySelector_clearInlineError [simp]:
  "querySelector c (clearInlineError k s) = querySelector c s"
  by (rule querySelector_placeholders) simp

lemma querySelector_showInlineError [simp]:
  "querySelector c (showInlineError k m s) = querySelector c s"
  by (rule querySelector_placeholders) simp

lemma replaceAndMaybeRender_frame [simp]:
  "grecaptchaReady (snd (replaceAndMaybeRender el sz s)) = grecaptchaReady s"
  "grecaptchaReadyQueue (snd (replaceAndMaybeRender el sz s)) = grecaptchaReadyQueue s"
  "grecaptcha (snd (replaceAndMaybeRender el sz s)) = grecaptcha s"
  "retryState (snd (replaceAndMaybeRender el sz s)) = retryState s"
  "timers (snd (replaceAndMaybeRender el sz s)) = timers s"
  "next_el (snd (replaceAndMaybeRender el sz s)) = Suc (next_el s)"
  "innerWidth (snd (replaceAndMaybeRender el sz s)) = innerWidth s"
  "stack_limit (snd (replaceAndMaybeRender el sz s)) = stack_limit s"
  "allowSubmit (snd (replaceAndMaybeRender el sz s)) = allowSubmit s"
  "submissions (snd (replaceAndMaybeRender el sz s)) = submissions s"
  "form (snd (replaceAndMaybeRender el sz s)) = form s"
  by (simp_all add: replaceAndMaybeRender_def putElement_def Let_def
      split: option.splits render_result.splits)

lemma scheduleRenderAttempt_frame [simp]:
  "grecaptchaReady (scheduleRenderAttempt c s) = grecaptchaReady s"
  "grecaptchaReadyQueue (scheduleRenderAttempt c s) = grecaptchaReadyQueue s"
  "grecaptcha (scheduleRenderAttempt c s) = grecaptcha s"
  "next_el (scheduleRenderAttempt c s) = next_el s"
  "render_log (scheduleRenderAttempt c s) = render_log s"
  "innerWidth (scheduleRenderAttempt c s) = innerWidth s"
  "stack_limit (scheduleRenderAttempt c s) = stack_limit s"
  "allowSubmit (scheduleRenderAttempt c s) = allowSubmit s"
  "submissions (scheduleRenderAttempt c s) = submissions s"
  "form (scheduleRenderAttempt c s) = form s"
  "map placeholders (containers (scheduleRenderAttempt c s)) = map placeholders (containers s)"
  by (simp_all add: scheduleRenderAttempt_def Let_def split: option.splits)

lemma desiredSize_frame [simp]:
  "desiredSize (clearInlineError c s) = desiredSize s"
  by (simp add: desiredSize_def)

lemma attemptRender_depth_null:
  "attemptRender_depth (Suc d) None s = (Returned, s)"
  by simp

lemma attemptRender_depth_none:
  "querySelector k s = None \<Longrightarrow>
     attemptRender_depth (Suc d) (Some k) s = (Returned, clearInlineError (Some k) s)"
  by simp

lemma attemptRender_depth_rendered:
  "querySelector k s = Some cur \<Longrightarrow> truthy (getAttribute cur ''data-recaptcha-widget-id'')
   \<Longrightarrow> grecaptcha s = Some g \<Longrightarrow>
     attemptRender_depth (Suc d) (Some k) s = (Returned, clearInlineError (Some k) s)"
  by simp

lemma attemptRender_depth_render:
  "querySelector k s = Some cur \<Longrightarrow> \<not> truthy (getAttribute cur ''data-recaptcha-widget-id'')
   \<Longrightarrow> grecaptcha s = Some g \<Longrightarrow>
     attemptRender_depth (Suc d) (Some k) s =
       (let r = replaceAndMaybeRender cur (desiredSize s) (clearInlineError (Some k) s)
        in if res_widgetId (fst r) \<noteq> None
           then (Returned,
                 clearInlineError (Some k)
                   ((snd r)\<lparr>retryState := (retryState (snd r))(el_id (res_el (fst r)) := None)\<rparr>))
           else (Returned, scheduleRenderAttempt (Some k) (snd r)))"
  by (simp add: case_prod_beta Let_def)

lemma attemptRender_depth_queue:
  "querySelector k s = Some cur \<Longrightarrow> grecaptcha s = None \<Longrightarrow> \<not> grecaptchaReady s \<Longrightarrow>
     attemptRender_depth (Suc d) (Some k) s =
       (Returned,
        scheduleRenderAttempt (Some k)
          ((clearInlineError (Some k) s)
             \<lparr>grecaptchaReadyQueue := grecaptchaReadyQueue s @ [k]\<rparr>))"
  by (simp add: whenGrecaptchaReady_def)

lemma attemptRender_depth_nested:
  "querySelector k s = Some cur \<Longrightarrow> grecaptcha s = None \<Longrightarrow> grecaptchaReady s \<Longrightarrow>
     attemptRender_depth (Suc d) (Some k) s =
       (let r = attemptRender_depth d (Some k) (clearInlineError (Some k) s)
        in if fst r = Threw then (Threw, snd r)
           else (Returned, scheduleRenderAttempt (Some k) (snd r)))"
  by (simp add: whenGrecaptchaReady_def case_prod_beta Let_def)

declare attemptRender_depth.simps(2) [simp del]

lemma attemptRender_depth_ready:
  "grecaptchaReady s \<Longrightarrow>
     grecaptchaReady (snd (attemptRender_depth d c s))
     \<and> grecaptchaReadyQueue (snd (attemptRender_depth d c s)) = grecaptchaReadyQueue s"
proof (induction d arbitrary: s)
  case 0
  then show ?case by simp
next
  case (Suc d)
  show ?case
  proof (cases c)
    case None
    then show ?thesis using Suc.prems by (simp add: attemptRender_depth_null)
  next
    case (Some k)
    note ck = Some
    show ?thesis
    proof (cases "querySelector k s")
      case None
      then show ?thesis using ck Suc.prems by (simp add: attemptRender_depth_none)
    next
      case (Some cur)
      note cur = Some
      show ?thesis
      proof (cases "grecaptcha s")
        case None
        have r1: "grecaptchaReady (clearInlineError (Some k) s)" using Suc.prems by simp
        show ?thesis
          using Suc.IH [OF r1] Suc.prems
          by (simp add: ck attemptRender_depth_nested [OF cur None Suc.prems] Let_def)
      next
        case (Some g)
        show ?thesis
        proof (cases "truthy (getAttribute cur ''data-recaptcha-widget-id'')")
          case True
          then show ?thesis
            using Suc.prems by (simp add: ck attemptRender_depth_rendered [OF cur True Some])
        next
          case False
          then show ?thesis
            using Suc.prems
            by (simp add: ck attemptRender_depth_render [OF cur False Some] Let_def)
        qed
      qed
    qed
  qed
qed

subsection \<open>The scheduler\<close>

lemma string_of_nat_nonempty: "string_of_nat n \<noteq> []"
  by (subst string_of_nat.simps) simp

lemma scheduleRenderAttempt_schedules:
  assumes "querySelector c s = Some el"
    and "\<not> scheduled (retryOf s (el_id el))"
    and "attempts (retryOf s (el_id el)) < MAX_RENDER_RETRIES"
  shows "scheduleRenderAttempt (Some c) s =
     s\<lparr>retryState := (retryState s)(el_id el \<mapsto>
           \<lparr>attempts = Suc (attempts (retryOf s (el_id el))), scheduled = True\<rparr>),
       timers := timers s @
         [\<lparr>t_container = c, t_el = el_id el,
           t_state = \<lparr>attempts = Suc (attempts (retryOf s (el_id el))), scheduled = True\<rparr>,
           t_delay = 700 * 2 ^ attempts (retryOf s (el_id el))\<rparr>]\<rparr>"
  using assms by (simp add: scheduleRenderAttempt_def Let_def RETRY_BASE_MS_def)

lemma scheduleRenderAttempt_scheduled:
  assumes "querySelector c s = Some el" and "scheduled (retryOf s (el_id el))"
  shows "scheduleRenderAttempt (Some c) s = s"
  using assms by (simp add: scheduleRenderAttempt_def Let_def)

lemma scheduleRenderAttempt_gives_up:
  assumes "querySelector c s = Some el"
    and "\<not> scheduled (retryOf s (el_id el))"
    and "MAX_RENDER_RETRIES \<le> attempts (retryOf s (el_id el))"
  shows "scheduleRenderAttempt (Some c) s =
     (showInlineError (Some c) maxRetriesMessage s)
       \<lparr>retryState := (retryState s)(el_id el \<mapsto> retryOf s (el_id el))\<rparr>"
  using assms by (simp add: scheduleRenderAttempt_def Let_def)

subsection \<open>The readiness queue\<close>

lemma attemptRender_ready:
  "grecaptchaReady s \<Longrightarrow>
     grecaptchaReady (snd (attemptRender c s))
     \<and> grecaptchaReadyQueue (snd (attemptRender c s)) = grecaptchaReadyQueue s"
  unfolding attemptRender_def by (rule attemptRender_depth_ready)

lemma drainReadyQueue_runs:
  "grecaptchaReady s \<Longrightarrow> grecaptchaReadyQueue s = q
   \<Longrightarrow> drainReadyQueue s = Some (runEachOnce q s)"
proof (induction q arbitrary: s)
  case Nil
  then show ?case by (subst drainReadyQueue.simps) simp
next
  case (Cons c rest)
  let ?s' = "snd (attemptRender (Some c) (s\<lparr>grecaptchaReadyQueue := rest\<rparr>))"
  have r: "grecaptchaReady (s\<lparr>grecaptchaReadyQueue := rest\<rparr>)" using Cons.prems by simp
  have "grecaptchaReady ?s'" and "grecaptchaReadyQueue ?s' = rest"
    using attemptRender_ready [OF r, of "Some c"] by simp_all
  then have "drainReadyQueue ?s' = Some (runEachOnce rest ?s')"
    by (rule Cons.IH)
  then show ?case
    using Cons.prems by (subst drainReadyQueue.simps) simp
qed

lemma runEachOnce_ready:
  "grecaptchaReady s \<Longrightarrow> grecaptchaReadyQueue s = q
   \<Longrightarrow> grecaptchaReady (runEachOnce q s) \<and> grecaptchaReadyQueue (runEachOnce q s) = []"
proof (induction q arbitrary: s)
  case Nil
  then show ?case by simp
next
  case (Cons c rest)
  let ?s' = "snd (attemptRender (Some c) (s\<lparr>grecaptchaReadyQueue := rest\<rparr>))"
  have r: "grecaptchaReady (s\<lparr>grecaptchaReadyQueue := rest\<rparr>)" using Cons.prems by simp
  have "grecaptchaReady ?s'" and "grecaptchaReadyQueue ?s' = rest"
    using attemptRender_ready [OF r, of "Some c"] by simp_all
  then show ?case using Cons.IH [of ?s'] by simp
qed

text \<open>
  C6. Whatever closures \<^verbatim>\<open>whenGrecaptchaReady\<close> has queued, \<^verbatim>\<open>onRecaptchaApiLoaded\<close>
  returns, with the ready flag set and the queue empty, having called each queued
  closure exactly once, in the order they were queued, going on to the next one whether
  the call returned or threw. Before the signal \<^verbatim>\<open>whenGrecaptchaReady\<close> appends the
  closure at the end of the queue; once the flag is set it calls the closure at once.
\<close>

theorem onRecaptchaApiLoaded_runs_queue:
  "onRecaptchaApiLoaded s
     = Some (runEachOnce (grecaptchaReadyQueue s) (s\<lparr>grecaptchaReady := True\<rparr>))
   \<and> grecaptchaReady (runEachOnce (grecaptchaReadyQueue s) (s\<lparr>grecaptchaReady := True\<rparr>))
   \<and> grecaptchaReadyQueue (runEachOnce (grecaptchaReadyQueue s) (s\<lparr>grecaptchaReady := True\<rparr>)) = []
   \<and> (grecaptchaReady s \<longrightarrow> whenGrecaptchaReady f c s = f s)
   \<and> (\<not> grecaptchaReady s \<longrightarrow>
        whenGrecaptchaReady f c s
          = (Returned, s\<lparr>grecaptchaReadyQueue := grecaptchaReadyQueue s @ [c]\<rparr>))"
proof -
  let ?s = "s\<lparr>grecaptchaReady := True\<rparr>"
  have r: "grecaptchaReady ?s" and q: "grecaptchaReadyQueue ?s = grecaptchaReadyQueue s"
    by simp_all
  have a: "onRecaptchaApiLoaded s = Some (runEachOnce (grecaptchaReadyQueue s) ?s)"
    unfolding onRecaptchaApiLoaded_def by (rule drainReadyQueue_runs [OF r q])
  show ?thesis
    using a runEachOnce_ready [OF r q] by (simp add: whenGrecaptchaReady_def)
qed

lemma updateContainer_idem:
  assumes "\<And>k. f (f k) = f k"
  shows "updateContainer c f (updateContainer c f s) = updateContainer c f s"
  using assms by (simp add: updateContainer_def)

lemma clearInlineError_idem [simp]:
  "clearInlineError c (clearInlineError c s) = clearInlineError c s"
  by (cases c) (simp_all add: clearInlineError_def updateContainer_idem)

lemma attemptRender_depth_overflow:
  "querySelector k s = Some cur \<Longrightarrow> grecaptcha s = None \<Longrightarrow> grecaptchaReady s
   \<Longrightarrow> attemptRender_depth (Suc d) (Some k) s = (Threw, clearInlineError (Some k) s)"
proof (induction d arbitrary: s)
  case 0
  then show ?case by (simp add: attemptRender_depth_nested)
next
  case (Suc d)
  have q: "querySelector k (clearInlineError (Some k) s) = Some cur"
    and g: "grecaptcha (clearInlineError (Some k) s) = None"
    and r: "grecaptchaReady (clearInlineError (Some k) s)"
    using Suc.prems by simp_all
  have "attemptRender_depth (Suc d) (Some k) (clearInlineError (Some k) s)
      = (Threw, clearInlineError (Some k) s)"
    using Suc.IH [OF q g r] by simp
  then show ?case
    using attemptRender_depth_nested [OF Suc.prems, of "Suc d"]
    by (simp add: Let_def)
qed

subsection \<open>One level of attemptRender\<close>

lemma attemptRender_unfold:
  "attemptRender (Some k) s =
     (let s1 = clearInlineError (Some k) s
      in (case querySelector k s of
            None \<Rightarrow> (Returned, s1)
          | Some current \<Rightarrow>
              if truthy (getAttribute current ''data-recaptcha-widget-id'') \<and> grecaptcha s \<noteq> None
              then (Returned, s1)
              else if grecaptcha s \<noteq> None
              then (case replaceAndMaybeRender current (desiredSize s) s1 of
                      (res, s2) \<Rightarrow>
                        if res_widgetId res \<noteq> None
                        then (Returned,
                              clearInlineError (Some k)
                                (s2\<lparr>retryState := (retryState s2)(el_id (res_el res) := None)\<rparr>))
                        else (Returned, scheduleRenderAttempt (Some k) s2))
              else if grecaptchaReady s then (Threw, s1)
              else (Returned,
                    scheduleRenderAttempt (Some k)
                      (s1\<lparr>grecaptchaReadyQueue := grecaptchaReadyQueue s @ [k]\<rparr>))))"
proof (cases "querySelector k s")
  case None
  then show ?thesis by (simp add: attemptRender_def attemptRender_depth_none)
next
  case (Some cur)
  note cur = Some
  show ?thesis
  proof (cases "grecaptcha s")
    case None
    then show ?thesis
      using cur attemptRender_depth_overflow [OF cur None] attemptRender_depth_queue [OF cur None]
      by (cases "grecaptchaReady s") (simp_all add: attemptRender_def)
  next
    case (Some g)
    then show ?thesis
      using cur attemptRender_depth_rendered [OF cur _ Some]
        attemptRender_depth_render [OF cur _ Some]
      by (cases "truthy (getAttribute cur ''data-recaptcha-widget-id'')")
        (simp_all add: attemptRender_def case_prod_beta Let_def)
  qed
qed

subsection \<open>Retry timers and retry state\<close>

lemma timer_inv_cong:
  assumes "timer_inv s"
    and "timers s' = timers s" and "retryState s' = retryState s" and "next_el s' = next_el s"
    and "map placeholders (containers s') = map placeholders (containers s)"
  shows "timer_inv s'"
  using assms unfolding timer_inv_def by simp

lemma querySelector_in_dom:
  "querySelector c s = Some el \<Longrightarrow> el \<in> set (concat (map placeholders (containers s)))"
  by (auto simp: querySelector_def split: if_splits list.splits
      intro!: bexI [of _ "containers s ! c"])

lemma timer_inv_schedule:
  assumes "timer_inv s"
  shows "timer_inv (scheduleRenderAttempt c s)"
proof (cases c)
  case None
  then show ?thesis using assms by (simp add: scheduleRenderAttempt_def)
next
  case (Some k)
  show ?thesis
  proof (cases "querySelector k s")
    case None
    then show ?thesis using assms Some by (simp add: scheduleRenderAttempt_def)
  next
    case (Some el)
    note q = Some
    have dom: "el_id el < next_el s"
      using querySelector_in_dom [OF q] assms by (auto simp: timer_inv_def)
    show ?thesis
    proof (cases "scheduled (retryOf s (el_id el))")
      case True
      then show ?thesis
        using assms \<open>c = Some k\<close> scheduleRenderAttempt_scheduled [OF q True] by simp
    next
      case False
      have not_pending: "el_id el \<notin> t_el ` set (timers s)"
      proof
        assume "el_id el \<in> t_el ` set (timers s)"
        then obtain t where "t \<in> set (timers s)" "t_el t = el_id el" by auto
        then have "retryState s (el_id el) = Some (t_state t)" "scheduled (t_state t)"
          using assms by (auto simp: timer_inv_def)
        then show False using False by (simp add: retryOf_def)
      qed
      have others: "\<And>t. t \<in> set (timers s) \<Longrightarrow> t_el t \<noteq> el_id el"
        using not_pending by (metis imageI)
      show ?thesis
      proof (cases "attempts (retryOf s (el_id el)) < MAX_RENDER_RETRIES")
        case True
        show ?thesis
          using assms not_pending dom others
          unfolding \<open>c = Some k\<close> scheduleRenderAttempt_schedules [OF q False True] timer_inv_def
          by auto
      next
        case False
        then have ge: "MAX_RENDER_RETRIES \<le> attempts (retryOf s (el_id el))" by simp
        show ?thesis
          using assms others
          unfolding \<open>c = Some k\<close>
            scheduleRenderAttempt_gives_up [OF q \<open>\<not> scheduled (retryOf s (el_id el))\<close> ge]
            timer_inv_def
          by auto
      qed
    qed
  qed
qed

lemma el_id_setAttribute [simp]: "el_id (setAttribute n v e) = el_id e"
  by (simp add: setAttribute_def)

lemma el_id_removeAttribute [simp]: "el_id (removeAttribute n e) = el_id e"
  by (simp add: removeAttribute_def)

lemma el_id_copyDataAttributes [simp]: "el_id (copyDataAttributes src dest) = el_id dest"
proof -
  have "el_id (fold (\<lambda>(name, v) d. if startsWith name ''data-'' then setAttribute name v d else d)
        xs dest) = el_id dest" for xs
    by (induction xs arbitrary: dest) (auto split: prod.splits)
  then show ?thesis by (simp add: copyDataAttributes_def)
qed

lemma el_id_createReplacement [simp]: "el_id (createReplacement old sz n) = n"
  by (simp add: createReplacement_def Let_def)

lemma putElement_frame [simp]:
  "timers (putElement old new s) = timers s"
  "retryState (putElement old new s) = retryState s"
  "next_el (putElement old new s) = next_el s"
  "grecaptcha (putElement old new s) = grecaptcha s"
  "render_log (putElement old new s) = render_log s"
  by (simp_all add: putElement_def)

lemma putElement_dom:
  "set (concat (map placeholders (containers (putElement old new s))))
     \<subseteq> insert new (set (concat (map placeholders (containers s))))"
  by (auto simp: putElement_def)

lemma replaceAndMaybeRender_res_el [simp]:
  "el_id (res_el (fst (replaceAndMaybeRender el sz s))) = next_el s"
  by (simp add: replaceAndMaybeRender_def Let_def split: option.splits render_result.splits)

lemma replaceAndMaybeRender_absent:
  "grecaptcha s = None \<Longrightarrow>
     replaceAndMaybeRender el sz s =
       (\<lparr>res_el = createReplacement el sz (next_el s), res_widgetId = None\<rparr>,
        putElement (el_id el) (createReplacement el sz (next_el s))
          (s\<lparr>next_el := Suc (next_el s)\<rparr>))"
  by (simp add: replaceAndMaybeRender_def Let_def)

lemma replaceAndMaybeRender_throws:
  "grecaptcha s = Some g \<Longrightarrow> render g (length (render_log s)) = RenderThrows \<Longrightarrow>
     replaceAndMaybeRender el sz s =
       (\<lparr>res_el = createReplacement el sz (next_el s), res_widgetId = None\<rparr>,
        (putElement (el_id el) (createReplacement el sz (next_el s))
          (s\<lparr>next_el := Suc (next_el s)\<rparr>))
          \<lparr>render_log := render_log s @
             [(next_el s, buildRenderOptions (createReplacement el sz (next_el s)) sz)]\<rparr>)"
  by (simp add: replaceAndMaybeRender_def Let_def)

lemma replaceAndMaybeRender_renders:
  "grecaptcha s = Some g \<Longrightarrow> render g (length (render_log s)) = WidgetId w \<Longrightarrow>
     replaceAndMaybeRender el sz s =
       (\<lparr>res_el = setAttribute ''data-recaptcha-widget-id'' (string_of_nat w)
                   (createReplacement el sz (next_el s)),
         res_widgetId = Some w\<rparr>,
        putElement (next_el s)
          (setAttribute ''data-recaptcha-widget-id'' (string_of_nat w)
             (createReplacement el sz (next_el s)))
          ((putElement (el_id el) (createReplacement el sz (next_el s))
             (s\<lparr>next_el := Suc (next_el s)\<rparr>))
             \<lparr>render_log := render_log s @
                [(next_el s, buildRenderOptions (createReplacement el sz (next_el s)) sz)]\<rparr>))"
  by (simp add: replaceAndMaybeRender_def Let_def)

lemma putElement_dom_bound:
  assumes "\<forall>e \<in> set (concat (map placeholders (containers s))). el_id e < n" and "el_id new < n"
  shows "\<forall>e \<in> set (concat (map placeholders (containers (putElement old new s)))). el_id e < n"
proof
  fix e assume "e \<in> set (concat (map placeholders (containers (putElement old new s))))"
  then have "e = new \<or> e \<in> set (concat (map placeholders (containers s)))"
    using putElement_dom [of old new s] by auto
  then show "el_id e < n" using assms by auto
qed

lemma replaceAndMaybeRender_dom:
  assumes "\<forall>e \<in> set (concat (map placeholders (containers s))). el_id e < next_el s"
  shows "\<forall>e \<in> set (concat (map placeholders (containers (snd (replaceAndMaybeRender el sz s))))).
           el_id e < Suc (next_el s)"
proof -
  let ?new = "createReplacement el sz (next_el s)"
  let ?s1 = "putElement (el_id el) ?new (s\<lparr>next_el := Suc (next_el s)\<rparr>)"
  have d0: "\<forall>e \<in> set (concat (map placeholders (containers (s\<lparr>next_el := Suc (next_el s)\<rparr>)))).
              el_id e < Suc (next_el s)"
    using assms by (auto simp: less_Suc_eq)
  have d1: "\<forall>e \<in> set (concat (map placeholders (containers ?s1))). el_id e < Suc (next_el s)"
    by (rule putElement_dom_bound [OF d0]) simp
  have d1': "\<forall>e \<in> set (concat (map placeholders (containers (?s1\<lparr>render_log := l\<rparr>)))).
               el_id e < Suc (next_el s)" for l
    using d1 by simp
  show ?thesis
  proof (cases "grecaptcha s")
    case None
    then show ?thesis using d1 by (simp only: replaceAndMaybeRender_absent snd_conv)
  next
    case (Some g)
    show ?thesis
    proof (cases "render g (length (render_log s))")
      case (WidgetId w)
      have "\<forall>e \<in> set (concat (map placeholders (containers
               (putElement (next_el s)
                  (setAttribute ''data-recaptcha-widget-id'' (string_of_nat w) ?new)
                  (?s1\<lparr>render_log := render_log s @ [(next_el s, buildRenderOptions ?new sz)]\<rparr>))))).
              el_id e < Suc (next_el s)"
        by (rule putElement_dom_bound [OF d1']) simp
      then show ?thesis
        by (simp only: replaceAndMaybeRender_renders [OF Some WidgetId] snd_conv)
    next
      case RenderThrows
      then show ?thesis
        using d1' by (simp only: replaceAndMaybeRender_throws [OF Some RenderThrows] snd_conv)
    qed
  qed
qed

lemma timer_inv_replace:
  assumes "timer_inv s"
  shows "timer_inv (snd (replaceAndMaybeRender el sz s))"
  using assms replaceAndMaybeRender_dom [of s el sz]
  unfolding timer_inv_def by (auto simp: less_Suc_eq)

lemma timer_inv_forget:
  assumes "timer_inv s" and "\<forall>t \<in> set (timers s). t_el t \<noteq> e"
  shows "timer_inv (s\<lparr>retryState := (retryState s)(e := None)\<rparr>)"
  using assms unfolding timer_inv_def by auto

lemma timer_inv_attemptRender:
  assumes "timer_inv s"
  shows "timer_inv (snd (attemptRender c s))"
proof (cases c)
  case None
  then show ?thesis using assms by (simp add: attemptRender_def attemptRender_depth_null)
next
  case (Some k)
  let ?s1 = "clearInlineError (Some k) s"
  have i1: "timer_inv ?s1"
    by (rule timer_inv_cong [OF assms]) simp_all
  have i2: "timer_inv (scheduleRenderAttempt (Some k)
              (?s1\<lparr>grecaptchaReadyQueue := grecaptchaReadyQueue s @ [k]\<rparr>))"
    by (rule timer_inv_schedule, rule timer_inv_cong [OF i1]) simp_all
  have i3: "timer_inv (scheduleRenderAttempt (Some k) (snd (replaceAndMaybeRender cur sz ?s1)))"
    for cur sz
    by (rule timer_inv_schedule, rule timer_inv_replace [OF i1])
  have i4: "timer_inv (clearInlineError (Some k)
       ((snd r)\<lparr>retryState := (retryState (snd r))(el_id (res_el (fst r)) := None)\<rparr>))"
    if "r = replaceAndMaybeRender cur sz ?s1" for r cur sz
  proof -
    have a: "timer_inv (snd r)" unfolding that by (rule timer_inv_replace [OF i1])
    have b: "\<forall>t \<in> set (timers (snd r)). t_el t \<noteq> el_id (res_el (fst r))"
      using i1 unfolding that timer_inv_def by auto
    show ?thesis
      by (rule timer_inv_cong [OF timer_inv_forget [OF a b]]) simp_all
  qed
  show ?thesis
    unfolding Some attemptRender_unfold
    using i1 i2 i3 i4
    by (simp add: Let_def case_prod_beta split: option.splits)
qed

subsection \<open>The timer invariant over the handlers\<close>

lemma timer_inv_fire:
  assumes "timer_inv s" and "i < length (timers s)"
  shows "timer_inv (markUnscheduled (timers s ! i)
           (s\<lparr>timers := take i (timers s) @ drop (Suc i) (timers s)\<rparr>))"
proof -
  let ?t = "timers s ! i"
  let ?rest = "take i (timers s) @ drop (Suc i) (timers s)"
  have split: "timers s = take i (timers s) @ ?t # drop (Suc i) (timers s)"
    using assms(2) by (simp add: id_take_nth_drop)
  have d: "distinct (map t_el (take i (timers s) @ ?t # drop (Suc i) (timers s)))"
    using assms(1) split unfolding timer_inv_def by metis
  have d': "distinct (map t_el ?rest)"
    using d by auto
  have "t_el ?t \<notin> t_el ` set ?rest"
    using d by auto
  then have other: "\<forall>t \<in> set ?rest. t_el t \<noteq> t_el ?t"
    by (metis imageI)
  have sub: "set ?rest \<subseteq> set (timers s)"
    by (metis set_take_subset set_drop_subset Un_least set_append)
  show ?thesis
    using assms(1) d' other sub unfolding timer_inv_def markUnscheduled_def
    by (auto simp del: set_append)
qed

lemma timer_inv_retryTimer:
  assumes "timer_inv s" and "i < length (timers s)"
  shows "timer_inv (snd (retryTimerFires (timers s ! i)
           (s\<lparr>timers := take i (timers s) @ drop (Suc i) (timers s)\<rparr>)))"
  unfolding retryTimerFires_def
  by (rule timer_inv_attemptRender [OF timer_inv_fire [OF assms]])

lemma timer_inv_forEachCaptcha:
  "timer_inv s \<Longrightarrow> timer_inv (snd (forEachCaptcha sz els s))"
proof (induction els arbitrary: s)
  case Nil
  then show ?case by simp
next
  case (Cons el rest)
  have "timer_inv (snd (forEachCaptcha sz rest (snd (attemptRender (Some c) s))))" for c
    by (rule Cons.IH [OF timer_inv_attemptRender [OF Cons.prems]])
  moreover have "timer_inv (snd (attemptRender (Some c) s))" for c
    by (rule timer_inv_attemptRender [OF Cons.prems])
  ultimately show ?case
    using Cons.IH [OF Cons.prems]
    by (simp add: Let_def case_prod_beta split: option.splits)
qed

lemma timer_inv_applyCompact: "timer_inv s \<Longrightarrow> timer_inv (snd (applyCompact s))"
  unfolding applyCompact_def by (rule timer_inv_forEachCaptcha)

lemma timer_inv_runEachOnce: "timer_inv s \<Longrightarrow> timer_inv (runEachOnce q s)"
proof (induction q arbitrary: s)
  case Nil
  then show ?case by simp
next
  case (Cons c rest)
  have "timer_inv (s\<lparr>grecaptchaReadyQueue := rest\<rparr>)"
    by (rule timer_inv_cong [OF Cons.prems]) simp_all
  then show ?case
    using Cons.IH timer_inv_attemptRender by simp
qed

lemma timer_inv_fresh: "fresh_page s \<Longrightarrow> timer_inv s"
  by (auto simp: fresh_page_def timer_inv_def list_all_iff)

lemma formSubmit_frame [simp]:
  "timers (snd (formSubmit f s)) = timers s"
  "retryState (snd (formSubmit f s)) = retryState s"
  "next_el (snd (formSubmit f s)) = next_el s"
  "containers (snd (formSubmit f s)) = containers s"
  "grecaptcha (snd (formSubmit f s)) = grecaptcha s"
  "grecaptchaReady (snd (formSubmit f s)) = grecaptchaReady s"
  "render_log (snd (formSubmit f s)) = render_log s"
  "allowSubmit (snd (formSubmit f s)) = allowSubmit s"
  "form (snd (formSubmit f s)) = form s"
  by (simp_all add: formSubmit_def)

lemma onRecaptchaSuccess_frame [simp]:
  "timers (snd (onRecaptchaSuccess token s)) = timers s"
  "retryState (snd (onRecaptchaSuccess token s)) = retryState s"
  "next_el (snd (onRecaptchaSuccess token s)) = next_el s"
  "containers (snd (onRecaptchaSuccess token s)) = containers s"
  "grecaptcha (snd (onRecaptchaSuccess token s)) = grecaptcha s"
  "grecaptchaReady (snd (onRecaptchaSuccess token s)) = grecaptchaReady s"
  "render_log (snd (onRecaptchaSuccess token s)) = render_log s"
  by (simp_all add: onRecaptchaSuccess_def Let_def split: option.splits)

lemma timer_inv_handle:
  assumes "timer_inv s" and "handle ev s = Some s'"
  shows "timer_inv s'"
proof (cases ev)
  case Submit
  have rc: "timer_inv (revealContainer c s)" for c
    by (rule timer_inv_cong [OF assms(1)])
      (simp_all add: revealContainer_def updateContainer_placeholders)
  have b: "timer_inv (snd (attemptRender (Some c) (revealContainer c s)))" for c
    by (rule timer_inv_attemptRender [OF rc])
  have n: "timer_inv (s\<lparr>submissions := k\<rparr>)" "timer_inv (s\<lparr>allowSubmit := False\<rparr>)" for k
    by (rule timer_inv_cong [OF assms(1)], simp_all)+
  have c: "timer_inv (snd (onSubmitForm True s))"
    using assms(1) b n
    by (simp add: onSubmitForm_def Let_def case_prod_beta timer_inv_def split: option.splits)
  have "s' = snd (onSubmitForm True s)
        \<or> s' = (snd (onSubmitForm True s))\<lparr>submissions := Suc (submissions (snd (onSubmitForm True s)))\<rparr>"
    using assms(2) Submit by (auto simp: handle_def case_prod_beta split: if_splits)
  then show ?thesis using c by (auto simp: timer_inv_def)
next
  case (RetryTimer i)
  then show ?thesis
    using assms timer_inv_retryTimer [OF assms(1), of i]
    by (auto simp: handle_def split: if_splits)
next
  case ScrollTimer
  then show ?thesis using assms by (auto simp: handle_def timer_inv_def)
next
  case (ApiDefined g)
  then show ?thesis using assms by (auto simp: handle_def timer_inv_def)
next
  case ApiLoaded
  have "timer_inv (s\<lparr>grecaptchaReady := True\<rparr>)"
    by (rule timer_inv_cong [OF assms(1)]) simp_all
  then have "timer_inv (runEachOnce (grecaptchaReadyQueue s) (s\<lparr>grecaptchaReady := True\<rparr>))"
    by (rule timer_inv_runEachOnce)
  moreover have "onRecaptchaApiLoaded s
      = Some (runEachOnce (grecaptchaReadyQueue s) (s\<lparr>grecaptchaReady := True\<rparr>))"
    unfolding onRecaptchaApiLoaded_def by (rule drainReadyQueue_runs) simp_all
  ultimately show ?thesis
    using assms(2) ApiLoaded by (simp add: handle_def)
next
  case (Resize w)
  then show ?thesis using assms by (auto simp: handle_def onResize_def timer_inv_def)
next
  case ResizeTimer
  have "timer_inv (s\<lparr>resizeTimer := False\<rparr>)"
    by (rule timer_inv_cong [OF assms(1)]) simp_all
  then show ?thesis
    using assms ResizeTimer timer_inv_applyCompact
    by (auto simp: handle_def split: if_splits)
next
  case DOMContentLoaded
  then show ?thesis using assms timer_inv_applyCompact by (auto simp: handle_def)
next
  case (Solved token)
  then show ?thesis
    using assms by (auto simp: handle_def timer_inv_def)
next
  case Expired
  have "timers s' = timers s \<and> retryState s' = retryState s \<and> next_el s' = next_el s
        \<and> map placeholders (containers s') = map placeholders (containers s)"
    using assms(2) Expired
    by (auto simp: handle_def onRecaptchaExpired_def Let_def split: option.splits)
  then show ?thesis using timer_inv_cong [OF assms(1)] by simp
next
  case Errored
  have "timer_inv (showInlineError c m s)" for c m
    by (rule timer_inv_cong [OF assms(1)]) simp_all
  then show ?thesis
    using assms(2) Errored timer_inv_schedule
    by (auto simp: handle_def onRecaptchaError_def Let_def)
qed

lemma reachable_timer_inv: "reachable s \<Longrightarrow> timer_inv s"
  by (induction rule: reachable.induct)
    (auto intro: timer_inv_applyCompact timer_inv_fresh timer_inv_handle)

subsection \<open>Reachable states\<close>

lemma onRecaptchaApiLoaded_eq:
  "onRecaptchaApiLoaded s
     = Some (runEachOnce (grecaptchaReadyQueue s) (s\<lparr>grecaptchaReady := True\<rparr>))"
  unfolding onRecaptchaApiLoaded_def by (rule drainReadyQueue_runs) simp_all

lemma string_of_nat_digit:
  "string_of_nat 0 = ''0''" "string_of_nat 1 = ''1''" "string_of_nat 2 = ''2''"
  by (simp_all add: string_of_nat.simps)

lemmas eval_defs =
  handle_def onSubmitForm_def attemptRender_unfold retryTimerFires_def markUnscheduled_def
  scheduleRenderAttempt_def retryOf_def replaceAndMaybeRender_def createReplacement_def
  copyDataAttributes_def setAttribute_def removeAttribute_def getAttribute_def startsWith_def
  truthy_def orEmpty_def buildRenderOptions_def putElement_def querySelector_def
  updateContainer_def showInlineError_def clearInlineError_def containerHidden_def
  revealContainer_def
  desiredSize_def BREAKPOINT_def MAX_RENDER_RETRIES_def RETRY_BASE_MS_def proceeds_def
  onRecaptchaApiLoaded_eq applyCompact_def closestContainer_def onResize_def
  onRecaptchaSuccess_def formSubmit_def submitShadowed_def onRecaptchaExpired_def onRecaptchaError_def maxRetriesMessage_def
  string_of_nat_digit

lemma reachable_run: "reachable s \<Longrightarrow> run evs s = Some s' \<Longrightarrow> reachable s'"
proof (induction evs arbitrary: s)
  case Nil
  then show ?case by simp
next
  case (Cons ev evs)
  then show ?case by (auto split: option.splits intro: reachable.after)
qed

lemma filter_distinct_map:
  "distinct (map f xs) \<Longrightarrow> length (filter (\<lambda>x. f x = y) xs) \<le> 1"
proof (induction xs)
  case Nil
  then show ?case by simp
next
  case (Cons x xs)
  have "f x = y \<Longrightarrow> filter (\<lambda>x. f x = y) xs = []"
    using Cons.prems by (force simp: filter_empty_conv image_iff)
  then show ?case using Cons by auto
qed

text \<open>
  Node by node the flag does its work: in every state the page can reach, no node has
  more than one retry timer pending, a node with a pending timer has its
  \<^verbatim>\<open>scheduled\<close> flag set, and a call of \<^verbatim>\<open>scheduleRenderAttempt\<close> for a
  placeholder whose flag is set changes nothing.
\<close>

lemma one_retry_timer_per_node:
  assumes "reachable s"
  shows "(\<forall>e. length (filter (\<lambda>t. t_el t = e) (timers s)) \<le> 1)
     \<and> (\<forall>t \<in> set (timers s). scheduled (retryOf s (t_el t)))
     \<and> (\<forall>c el. querySelector c s = Some el \<and> scheduled (retryOf s (el_id el))
          \<longrightarrow> scheduleRenderAttempt (Some c) s = s)"
proof -
  have inv: "timer_inv s" by (rule reachable_timer_inv [OF assms])
  have a: "\<forall>e. length (filter (\<lambda>t. t_el t = e) (timers s)) \<le> 1"
    using inv filter_distinct_map [of t_el "timers s"] by (simp add: timer_inv_def)
  have b: "\<forall>t \<in> set (timers s). scheduled (retryOf s (t_el t))"
    using inv by (auto simp: timer_inv_def retryOf_def)
  have c: "\<forall>c el. querySelector c s = Some el \<and> scheduled (retryOf s (el_id el))
          \<longrightarrow> scheduleRenderAttempt (Some c) s = s"
    using scheduleRenderAttempt_scheduled by blast
  from a b c show ?thesis by blast
qed

subsection \<open>The delay of one timer\<close>

text \<open>
  When \<^verbatim>\<open>scheduleRenderAttempt\<close> sets a timer for a node, the delay is 700 ms times
  2 to the power of the attempt count it found for that node, and the count is one
  higher as soon as the timer is set; the timer's callback leaves the count as it is.
  So the next timer set for the same node, if it is still the placeholder, waits twice
  as long.
\<close>

lemma scheduleRenderAttempt_delay:
  assumes q: "querySelector c s = Some el"
    and ns: "\<not> scheduled (retryOf s (el_id el))"
    and lt: "attempts (retryOf s (el_id el)) < MAX_RENDER_RETRIES"
  shows "\<exists>t. timers (scheduleRenderAttempt (Some c) s) = timers s @ [t]
      \<and> t_el t = el_id el
      \<and> t_delay t = RETRY_BASE_MS * 2 ^ attempts (retryOf s (el_id el))
      \<and> RETRY_BASE_MS = 700
      \<and> attempts (retryOf (scheduleRenderAttempt (Some c) s) (el_id el))
          = Suc (attempts (retryOf s (el_id el)))
      \<and> attempts (retryOf (markUnscheduled t (scheduleRenderAttempt (Some c) s)) (el_id el))
          = Suc (attempts (retryOf s (el_id el)))
      \<and> (\<forall>c' s'. querySelector c' s' = Some el
            \<and> retryOf s' (el_id el)
                = retryOf (markUnscheduled t (scheduleRenderAttempt (Some c) s)) (el_id el)
            \<and> Suc (attempts (retryOf s (el_id el))) < MAX_RENDER_RETRIES
          \<longrightarrow> (\<exists>t'. timers (scheduleRenderAttempt (Some c') s') = timers s' @ [t']
                \<and> t_delay t' = 2 * t_delay t \<and> t_delay t < t_delay t'))"
proof -
  let ?a = "attempts (retryOf s (el_id el))"
  let ?t = "\<lparr>t_container = c, t_el = el_id el,
           t_state = \<lparr>attempts = Suc ?a, scheduled = True\<rparr>,
           t_delay = 700 * 2 ^ ?a\<rparr>"
  let ?s1 = "scheduleRenderAttempt (Some c) s"
  have s1: "timers ?s1 = timers s @ [?t]"
    by (simp add: scheduleRenderAttempt_schedules [OF q ns lt])
  have s2: "attempts (retryOf ?s1 (el_id el)) = Suc ?a"
    by (simp add: scheduleRenderAttempt_schedules [OF q ns lt] retryOf_def)
  have m: "retryOf (markUnscheduled ?t ?s1) (el_id el) = \<lparr>attempts = Suc ?a, scheduled = False\<rparr>"
    by (simp add: markUnscheduled_def retryOf_def)
  have s3: "\<exists>t'. timers (scheduleRenderAttempt (Some c') s') = timers s' @ [t']
                \<and> t_delay t' = 2 * t_delay ?t \<and> t_delay ?t < t_delay t'"
    if q': "querySelector c' s' = Some el"
      and r': "retryOf s' (el_id el) = retryOf (markUnscheduled ?t ?s1) (el_id el)"
      and lt': "Suc ?a < MAX_RENDER_RETRIES" for c' s'
  proof -
    have ns': "\<not> scheduled (retryOf s' (el_id el))" using r' m by simp
    have a': "attempts (retryOf s' (el_id el)) = Suc ?a" using r' m by simp
    have lt'': "attempts (retryOf s' (el_id el)) < MAX_RENDER_RETRIES" using a' lt' by simp
    show ?thesis
      by (simp add: scheduleRenderAttempt_schedules [OF q' ns' lt''] a')
  qed
  show ?thesis
    apply (rule exI [of _ ?t])
    using s1 s2 s3 m by (simp add: RETRY_BASE_MS_def)
qed

subsection \<open>A throwing render call\<close>

lemmas page_defs = contact_page_def widget_div_def three_widgets_page_def flaky_api_def
  failing_api_def working_api_def

lemma querySelector_putElement:
  "querySelector c s = Some cur \<Longrightarrow> querySelector c (putElement (el_id cur) new s) = Some new"
  by (auto simp: querySelector_def putElement_def split: if_splits list.splits)

lemma querySelector_fields [simp]:
  "querySelector c (s\<lparr>next_el := n\<rparr>) = querySelector c s"
  "querySelector c (s\<lparr>render_log := l\<rparr>) = querySelector c s"
  "querySelector c (s\<lparr>retryState := r\<rparr>) = querySelector c s"
  "querySelector c (s\<lparr>timers := ts\<rparr>) = querySelector c s"
  "querySelector c (s\<lparr>grecaptchaReadyQueue := q\<rparr>) = querySelector c s"
  "querySelector c (s\<lparr>grecaptchaReady := b\<rparr>) = querySelector c s"
  "querySelector c (s\<lparr>grecaptcha := g\<rparr>) = querySelector c s"
  "querySelector c (s\<lparr>innerWidth := w\<rparr>) = querySelector c s"
  by (simp_all add: querySelector_def)

lemma retryOf_fields [simp]:
  "retryOf (s\<lparr>next_el := n\<rparr>) = retryOf s"
  "retryOf (s\<lparr>render_log := l\<rparr>) = retryOf s"
  "retryOf (s\<lparr>grecaptchaReadyQueue := q\<rparr>) = retryOf s"
  "retryOf (putElement old new s) = retryOf s"
  "retryOf (clearInlineError k s) = retryOf s"
  by (simp_all add: retryOf_def fun_eq_iff)

text \<open>A render call that throws: the placeholder is replaced and the retry starts over.\<close>

lemma attemptRender_throws:
  assumes g: "grecaptcha s = Some g"
    and thr: "render g (length (render_log s)) = RenderThrows"
    and q: "querySelector c s = Some cur"
    and nw: "\<not> truthy (getAttribute cur ''data-recaptcha-widget-id'')"
    and fresh: "retryState s (next_el s) = None"
  shows "attemptRender (Some c) s =
     (Returned,
      (putElement (el_id cur) (createReplacement cur (desiredSize s) (next_el s))
         ((clearInlineError (Some c) s)\<lparr>next_el := Suc (next_el s)\<rparr>))
        \<lparr>render_log := render_log s @
           [(next_el s,
             buildRenderOptions (createReplacement cur (desiredSize s) (next_el s)) (desiredSize s))],
         retryState := (retryState s)(next_el s \<mapsto> \<lparr>attempts = Suc 0, scheduled = True\<rparr>),
         timers := timers s @
           [\<lparr>t_container = c, t_el = next_el s,
             t_state = \<lparr>attempts = Suc 0, scheduled = True\<rparr>, t_delay = 700\<rparr>]\<rparr>)"
proof -
  let ?s1 = "clearInlineError (Some c) s"
  let ?new = "createReplacement cur (desiredSize s) (next_el s)"
  let ?s2 = "(putElement (el_id cur) ?new (?s1\<lparr>next_el := Suc (next_el s)\<rparr>))
        \<lparr>render_log := render_log s @ [(next_el s, buildRenderOptions ?new (desiredSize s))]\<rparr>"
  have g1: "grecaptcha ?s1 = Some g" and thr1: "render g (length (render_log ?s1)) = RenderThrows"
    using g thr by simp_all
  have rep: "replaceAndMaybeRender cur (desiredSize s) ?s1
      = (\<lparr>res_el = ?new, res_widgetId = None\<rparr>, ?s2)"
    using replaceAndMaybeRender_throws [OF g1 thr1, of cur "desiredSize s"] by simp
  have q1: "querySelector c (?s1\<lparr>next_el := Suc (next_el s)\<rparr>) = Some cur"
    using q by simp
  have q2: "querySelector c ?s2 = Some ?new"
    using querySelector_putElement [OF q1, of ?new] by simp
  have r2: "retryOf ?s2 (el_id ?new) = \<lparr>attempts = 0, scheduled = False\<rparr>"
    using fresh by (simp add: retryOf_def)
  have ns: "\<not> scheduled (retryOf ?s2 (el_id ?new))"
    and lt: "attempts (retryOf ?s2 (el_id ?new)) < MAX_RENDER_RETRIES"
    using r2 by (simp_all add: MAX_RENDER_RETRIES_def)
  have sch: "scheduleRenderAttempt (Some c) ?s2 =
      ?s2\<lparr>retryState := (retryState ?s2)(el_id ?new \<mapsto> \<lparr>attempts = Suc 0, scheduled = True\<rparr>),
           timers := timers ?s2 @
             [\<lparr>t_container = c, t_el = el_id ?new,
               t_state = \<lparr>attempts = Suc 0, scheduled = True\<rparr>, t_delay = 700\<rparr>]\<rparr>"
    using scheduleRenderAttempt_schedules [OF q2 ns lt] r2 by simp
  show ?thesis
    using q g nw rep sch by (simp add: attemptRender_unfold)
qed

subsection \<open>Repeated synchronous failures\<close>

lemma keys_copyDataAttributes:
  "fst ` set (attributes (copyDataAttributes src dest))
     \<subseteq> fst ` set (attributes src) \<union> fst ` set (attributes dest)"
proof -
  have "fst ` set (attributes
          (fold (\<lambda>(name, v) d. if startsWith name ''data-'' then setAttribute name v d else d)
             xs dest))
        \<subseteq> fst ` set xs \<union> fst ` set (attributes dest)" for xs
  proof (induction xs arbitrary: dest)
    case Nil
    then show ?case by simp
  next
    case (Cons x xs)
    obtain n v where x: "x = (n, v)" by (cases x)
    show ?case
      using Cons [of "setAttribute n v dest"] Cons [of dest]
      by (auto simp: x setAttribute_def dom_update)
  qed
  then show ?thesis by (simp add: copyDataAttributes_def)
qed

lemma keys_setAttribute:
  "fst ` set (attributes (setAttribute name v el)) = insert name (fst ` set (attributes el))"
  by (simp add: setAttribute_def dom_update)

lemma keys_removeAttribute:
  "fst ` set (attributes (removeAttribute name el)) \<subseteq> fst ` set (attributes el)"
  by (auto simp: removeAttribute_def AList.delete_eq)

lemma keys_createReplacement:
  "fst ` set (attributes (createReplacement old sz n))
     \<subseteq> fst ` set (attributes old) \<union> {''data-size'', ''data-recaptcha-rendered-size''}"
proof -
  define created where "created = \<lparr>el_id = n,
              className = (if className old = [] then ''g-recaptcha'' else className old),
              attributes = []\<rparr>"
  define copied where "copied = copyDataAttributes old created"
  define sized where "sized = (if truthy sz then setAttribute ''data-size'' (orEmpty sz) copied
                else removeAttribute ''data-size'' copied)"
  have c: "fst ` set (attributes copied) \<subseteq> fst ` set (attributes old)"
    using keys_copyDataAttributes [of old created] by (simp add: copied_def created_def)
  have z: "fst ` set (attributes sized) \<subseteq> insert ''data-size'' (fst ` set (attributes old))"
  proof (cases "truthy sz")
    case True
    then have "fst ` set (attributes sized) = insert ''data-size'' (fst ` set (attributes copied))"
      by (simp add: sized_def keys_setAttribute)
    then show ?thesis using c by blast
  next
    case False
    then have "fst ` set (attributes sized) \<subseteq> fst ` set (attributes copied)"
      using keys_removeAttribute [of "''data-size''" copied] by (simp add: sized_def)
    then show ?thesis using c by blast
  qed
  have "createReplacement old sz n
      = setAttribute ''data-recaptcha-rendered-size'' (if truthy sz then orEmpty sz else []) sized"
    by (simp add: createReplacement_def Let_def sized_def copied_def created_def)
  then have "fst ` set (attributes (createReplacement old sz n))
      = insert ''data-recaptcha-rendered-size'' (fst ` set (attributes sized))"
    by (simp add: keys_setAttribute)
  then show ?thesis using z by blast
qed

lemma getAttribute_absent:
  "name \<notin> fst ` set (attributes el) \<Longrightarrow> getAttribute el name = None"
  by (simp add: getAttribute_def map_of_eq_None_iff)

lemma error_box_putElement [simp]:
  "map error_box (containers (putElement old new s)) = map error_box (containers s)"
  by (simp add: putElement_def comp_def)

lemma error_box_clearInlineError:
  "map error_box (containers s) = [b] \<Longrightarrow>
     map error_box (containers (clearInlineError (Some 0) s)) = [None]"
  by (cases "containers s") (auto simp: clearInlineError_def updateContainer_def)

lemma failing_api_throws: "render failing_api k = RenderThrows"
  by (simp add: failing_api_def)

lemma retrying_from_base_step:
  assumes "retrying_from_base s"
  shows "\<exists>s'. handle (RetryTimer 0) s = Some s' \<and> retrying_from_base s'"
proof -
  obtain cur t where g: "grecaptcha s = Some failing_api" and q: "querySelector 0 s = Some cur"
    and k: "''data-recaptcha-widget-id'' \<notin> fst ` set (attributes cur)"
    and ts: "timers s = [t]" and tc: "t_container t = 0" and te: "t_el t < next_el s"
    and fr: "\<forall>e \<ge> next_el s. retryState s e = None"
    and eb: "map error_box (containers s) = [None]"
    using assms unfolding retrying_from_base_def by auto
  define s0 where "s0 = markUnscheduled t (s\<lparr>timers := []\<rparr>)"
  define new where "new = createReplacement cur (desiredSize s0) (next_el s)"
  have g0: "grecaptcha s0 = Some failing_api" using g by (simp add: s0_def markUnscheduled_def)
  have q0: "querySelector 0 s0 = Some cur" using q by (simp add: s0_def markUnscheduled_def)
  have n0: "next_el s0 = next_el s" by (simp add: s0_def markUnscheduled_def)
  have t0: "timers s0 = []" by (simp add: s0_def markUnscheduled_def)
  have r0: "retryState s0 = (retryState s)(t_el t \<mapsto> (t_state t)\<lparr>scheduled := False\<rparr>)"
    by (simp add: s0_def markUnscheduled_def)
  have f0: "retryState s0 (next_el s0) = None"
    using fr te by (simp add: r0 n0)
  have nw: "\<not> truthy (getAttribute cur ''data-recaptcha-widget-id'')"
    using getAttribute_absent [OF k] by (simp add: truthy_def)
  note step = attemptRender_throws [OF g0 failing_api_throws q0 nw f0]
  define s' where "s' = snd (attemptRender (Some 0) s0)"
  have h: "handle (RetryTimer 0) s = Some s'"
    using ts tc by (simp add: handle_def retryTimerFires_def s'_def s0_def)
  have q': "querySelector 0 s' = Some new"
    using querySelector_putElement
      [of 0 "(clearInlineError (Some 0) s0)\<lparr>next_el := Suc (next_el s0)\<rparr>" cur new] q0
    by (simp add: s'_def step n0 new_def)
  have k': "''data-recaptcha-widget-id'' \<notin> fst ` set (attributes new)"
    using keys_createReplacement [of cur "desiredSize s0" "next_el s"] k
    unfolding new_def by auto
  have eb0: "map error_box (containers s0) = [None]"
    using eb by (simp add: s0_def markUnscheduled_def)
  have eb': "map error_box (containers s') = [None]"
    using error_box_clearInlineError [OF eb0] by (simp add: s'_def step n0)
  have fr': "\<forall>e \<ge> next_el s'. retryState s' e = None"
    using fr te by (auto simp: s'_def step n0 r0)
  have "retrying_from_base s'"
    unfolding retrying_from_base_def
    apply (rule exI [of _ new])
    apply (rule exI [of _ "\<lparr>t_container = 0, t_el = next_el s,
             t_state = \<lparr>attempts = Suc 0, scheduled = True\<rparr>, t_delay = 700\<rparr>"])
    using q' k' eb' fr' g0 t0
    by (simp add: s'_def step n0)
  then show ?thesis using h by blast
qed

lemma retrying_from_base_observe:
  "retrying_from_base s \<Longrightarrow>
     observe (\<lambda>s. (map t_delay (timers s), map error_box (containers s)))
       (replicate n (RetryTimer 0)) s = replicate n ([700], [None])"
proof (induction n arbitrary: s)
  case 0
  then show ?case by simp
next
  case (Suc n)
  obtain s' where s': "handle (RetryTimer 0) s = Some s'" "retrying_from_base s'"
    using retrying_from_base_step [OF Suc.prems] by blast
  have "map t_delay (timers s') = [700]" "map error_box (containers s') = [None]"
    using s'(2) unfolding retrying_from_base_def by auto
  then show ?case using s' Suc.IH [OF s'(2)] by simp
qed

lemma failing_page_submit:
  "\<exists>s'. handle Submit failing_page = Some s' \<and> retrying_from_base s'"
proof -
  define s1 where "s1 = revealContainer 0 failing_page"
  define new where "new = createReplacement widget_div (desiredSize s1) 1"
  have g: "grecaptcha s1 = Some failing_api"
    by (simp add: s1_def failing_page_def contact_page_def revealContainer_def containerHidden_def updateContainer_def)
  have q: "querySelector 0 s1 = Some widget_div"
    by (simp add: s1_def failing_page_def contact_page_def revealContainer_def containerHidden_def updateContainer_def querySelector_def)
  have n: "next_el s1 = 1"
    by (simp add: s1_def failing_page_def contact_page_def revealContainer_def containerHidden_def updateContainer_def)
  have k: "''data-recaptcha-widget-id'' \<notin> fst ` set (attributes widget_div)"
    by (simp add: widget_div_def)
  have nw: "\<not> truthy (getAttribute widget_div ''data-recaptcha-widget-id'')"
    using getAttribute_absent [OF k] by (simp add: truthy_def)
  have f: "retryState s1 (next_el s1) = None"
    by (simp add: s1_def failing_page_def contact_page_def revealContainer_def containerHidden_def updateContainer_def)
  note step = attemptRender_throws [OF g failing_api_throws q nw f]
  define s' where "s' = snd (attemptRender (Some 0) s1)"
  have pre: "\<not> allowSubmit failing_page" "form failing_page
      = Some \<lparr>inputs = [\<lparr>input_type = ''email'', input_name = ''email'',
                                input_value = ''me@example.org''\<rparr>],
                    recaptcha_container = Some 0, other_names = []\<rparr>"
    "containerHidden 0 failing_page"
    by (simp_all add: failing_page_def contact_page_def containerHidden_def)
  have h: "handle Submit failing_page = Some s'"
    using pre
    by (simp add: handle_def onSubmitForm_def proceeds_def Let_def case_prod_beta
        s'_def s1_def)
  have q': "querySelector 0 s' = Some new"
    using querySelector_putElement
      [of 0 "(clearInlineError (Some 0) s1)\<lparr>next_el := Suc (next_el s1)\<rparr>" widget_div new] q
    by (simp add: s'_def step n new_def)
  have k': "''data-recaptcha-widget-id'' \<notin> fst ` set (attributes new)"
    using keys_createReplacement [of widget_div "desiredSize s1" 1] k
    unfolding new_def by auto
  have eb0: "map error_box (containers s1) = [None]"
    by (simp add: s1_def failing_page_def contact_page_def revealContainer_def containerHidden_def updateContainer_def)
  have eb': "map error_box (containers s') = [None]"
    using error_box_clearInlineError [OF eb0] by (simp add: s'_def step n)
  have r1: "retryState s1 = Map.empty" and tm: "timers s1 = []"
    by (simp_all add: s1_def failing_page_def contact_page_def revealContainer_def containerHidden_def updateContainer_def)
  have fr': "\<forall>e \<ge> next_el s'. retryState s' e = None"
    using r1 by (auto simp: s'_def step n)
  have "retrying_from_base s'"
    unfolding retrying_from_base_def
    apply (rule exI [of _ new])
    apply (rule exI [of _ "\<lparr>t_container = 0, t_el = 1,
             t_state = \<lparr>attempts = Suc 0, scheduled = True\<rparr>, t_delay = 700\<rparr>"])
    using q' k' eb' fr' g tm
    by (simp add: s'_def step n)
  then show ?thesis using h by blast
qed

text \<open>
  C5, as the code has it: with a \<^verbatim>\<open>render\<close> that throws on every call, after the
  submit and after each of any number of retries exactly one timer is pending, its delay
  is 700 ms every time, and no message is shown. Each failed attempt has replaced the
  placeholder, and the new node has no entry in \<^verbatim>\<open>retryState\<close>.
\<close>

theorem sync_failures_never_reach_ceiling:
  "observe (\<lambda>s. (map t_delay (timers s), map error_box (containers s)))
     (Submit # replicate n (RetryTimer 0)) failing_page
   = replicate (Suc n) ([700], [None])"
proof -
  obtain s' where s': "handle Submit failing_page = Some s'" "retrying_from_base s'"
    using failing_page_submit by blast
  have "map t_delay (timers s') = [700]" "map error_box (containers s') = [None]"
    using s'(2) unfolding retrying_from_base_def by auto
  then show ?thesis
    using s' retrying_from_base_observe [OF s'(2), of n] by simp
qed

subsection \<open>Queued callbacks on concrete pages\<close>

lemma three_widgets_loaded:
  "handle DOMContentLoaded three_widgets_page
     = Some (queued_page\<lparr>containers := containers three_widgets_page\<rparr>)"
  apply (simp add: eval_defs page_defs queued_page_def)
  apply (simp add: Let_def eval_defs)
  done

lemma three_widgets_errored:
  "handle Errored (queued_page\<lparr>containers := containers three_widgets_page\<rparr>) = Some queued_page"
  apply (simp add: eval_defs page_defs queued_page_def)
  apply (simp add: Let_def eval_defs)
  done

lemma queued_page_run: "run [DOMContentLoaded, Errored] three_widgets_page = Some queued_page"
  by (simp add: three_widgets_loaded three_widgets_errored)

lemma attemptRender_overflow:
  "grecaptchaReady s \<Longrightarrow> grecaptcha s = None \<Longrightarrow> querySelector k s \<noteq> None
   \<Longrightarrow> attemptRender (Some k) s = (Threw, clearInlineError (Some k) s)"
  by (auto simp: attemptRender_unfold)

lemma queued_page_facts:
  "grecaptcha queued_page = None" "\<not> grecaptchaReady queued_page"
  "grecaptchaReadyQueue queued_page = [0, 1, 2]"
  "querySelector 0 queued_page = Some widget_div"
  "querySelector 1 queued_page = Some (widget_div\<lparr>el_id := 1\<rparr>)"
  "querySelector (Suc 0) queued_page = Some (widget_div\<lparr>el_id := 1\<rparr>)"
  "querySelector 2 queued_page = Some (widget_div\<lparr>el_id := 2\<rparr>)"
  "next_el queued_page = 3" "render_log queued_page = []"
  by (simp_all add: queued_page_def three_widgets_page_def contact_page_def querySelector_def)

lemma queued_page_throwing:
  "runEachOnce [0, 1, 2] (queued_page\<lparr>grecaptchaReady := True\<rparr>)
     = clearInlineError (Some 2) (clearInlineError (Some 1) (clearInlineError (Some 0)
         (queued_page\<lparr>grecaptchaReady := True, grecaptchaReadyQueue := []\<rparr>)))"
proof -
  define s0 where "s0 = queued_page\<lparr>grecaptchaReady := True, grecaptchaReadyQueue := [1, 2]\<rparr>"
  have a0: "attemptRender (Some 0) s0 = (Threw, clearInlineError (Some 0) s0)"
    by (rule attemptRender_overflow) (simp_all add: s0_def queued_page_facts)
  define s1 where "s1 = (clearInlineError (Some 0) s0)\<lparr>grecaptchaReadyQueue := [2]\<rparr>"
  have a1: "attemptRender (Some 1) s1 = (Threw, clearInlineError (Some 1) s1)"
    by (rule attemptRender_overflow) (simp_all add: s1_def s0_def queued_page_facts)
  define s2 where "s2 = (clearInlineError (Some 1) s1)\<lparr>grecaptchaReadyQueue := []\<rparr>"
  have a2: "attemptRender (Some 2) s2 = (Threw, clearInlineError (Some 2) s2)"
    by (rule attemptRender_overflow) (simp_all add: s2_def s1_def s0_def queued_page_facts)
  have "runEachOnce [0, 1, 2] (queued_page\<lparr>grecaptchaReady := True\<rparr>)
      = clearInlineError (Some 2) s2"
    by (simp only: runEachOnce.simps s0_def [symmetric] a0 snd_conv s1_def [symmetric] a1
        s2_def [symmetric] a2)
  also have "\<dots> = clearInlineError (Some 2) (clearInlineError (Some 1) (clearInlineError (Some 0)
         (queued_page\<lparr>grecaptchaReady := True, grecaptchaReadyQueue := []\<rparr>)))"
    by (simp add: s2_def s1_def s0_def clearInlineError_def updateContainer_def)
  finally show ?thesis .
qed

lemma queued_page_cleared:
  "map error_box (containers (clearInlineError (Some 2) (clearInlineError (Some 1)
     (clearInlineError (Some 0)
         (queued_page\<lparr>grecaptchaReady := True, grecaptchaReadyQueue := []\<rparr>)))))
   = [None, None, None]"
  by (simp add: clearInlineError_def updateContainer_def queued_page_def three_widgets_page_def
      contact_page_def)

subsection \<open>A render call that returns\<close>

text \<open>A render call that returns: the new placeholder carries the widget id.\<close>

lemma attemptRender_renders:
  assumes g: "grecaptcha s = Some g"
    and ok: "render g (length (render_log s)) = WidgetId w"
    and q: "querySelector c s = Some cur"
    and nw: "\<not> truthy (getAttribute cur ''data-recaptcha-widget-id'')"
  shows "attemptRender (Some c) s =
     (Returned,
      clearInlineError (Some c)
        ((putElement (next_el s)
            (setAttribute ''data-recaptcha-widget-id'' (string_of_nat w)
               (createReplacement cur (desiredSize s) (next_el s)))
            ((putElement (el_id cur) (createReplacement cur (desiredSize s) (next_el s))
                ((clearInlineError (Some c) s)\<lparr>next_el := Suc (next_el s)\<rparr>))
               \<lparr>render_log := render_log s @
                  [(next_el s,
                    buildRenderOptions (createReplacement cur (desiredSize s) (next_el s))
                      (desiredSize s))]\<rparr>))
           \<lparr>retryState := (retryState s)(next_el s := None)\<rparr>))"
proof -
  let ?s1 = "clearInlineError (Some c) s"
  have g1: "grecaptcha ?s1 = Some g" and ok1: "render g (length (render_log ?s1)) = WidgetId w"
    using g ok by simp_all
  show ?thesis
    using q g nw replaceAndMaybeRender_renders [OF g1 ok1, of cur "desiredSize s"]
    by (simp add: attemptRender_unfold)
qed

lemma contact_page_submitted: "handle Submit contact_page = Some submitted_page"
  apply (simp add: eval_defs page_defs submitted_page_def)
  apply (simp add: Let_def eval_defs)
  done

lemma submitted_page_rendered:
  "run [ApiDefined working_api, ApiLoaded] submitted_page = Some rendered_page"
proof -
  define s where "s = submitted_page\<lparr>grecaptcha := Some working_api, grecaptchaReady := True,
     grecaptchaReadyQueue := []\<rparr>"
  have g: "grecaptcha s = Some working_api"
    and ok: "render working_api (length (render_log s)) = WidgetId 0"
    and q: "querySelector 0 s = Some widget_div"
    by (simp_all add: s_def submitted_page_def contact_page_def working_api_def querySelector_def)
  have nw: "\<not> truthy (getAttribute widget_div ''data-recaptcha-widget-id'')"
    by (simp add: truthy_def getAttribute_def widget_div_def)
  have "run [ApiDefined working_api, ApiLoaded] submitted_page
      = Some (snd (attemptRender (Some 0) s))"
    by (simp add: handle_def onRecaptchaApiLoaded_eq s_def submitted_page_def contact_page_def)
  also have "snd (attemptRender (Some 0) s) = rendered_page"
    unfolding attemptRender_renders [OF g ok q nw] snd_conv
    by (simp add: s_def rendered_page_def rendered_div_def submitted_page_def contact_page_def
        widget_div_def createReplacement_def copyDataAttributes_def setAttribute_def
        removeAttribute_def startsWith_def truthy_def orEmpty_def buildRenderOptions_def
        getAttribute_def putElement_def clearInlineError_def updateContainer_def
        desiredSize_def BREAKPOINT_def string_of_nat_digit Let_def)
  finally show ?thesis .
qed

subsection \<open>A retry that finds a rendered widget\<close>

text \<open>
  C9. When the placeholder of a container carries a widget id and \<^verbatim>\<open>grecaptcha.render\<close>
  is available, a retry timer of that container that fires returns without replacing a
  node, without creating one and without calling \<^verbatim>\<open>render\<close>, and sets no timer.
\<close>

theorem retry_after_success_is_noop:
  assumes "querySelector (t_container t) s = Some cur"
    and "truthy (getAttribute cur ''data-recaptcha-widget-id'')"
    and "grecaptcha s = Some g"
  shows "fst (retryTimerFires t s) = Returned
     \<and> map placeholders (containers (snd (retryTimerFires t s))) = map placeholders (containers s)
     \<and> render_log (snd (retryTimerFires t s)) = render_log s
     \<and> next_el (snd (retryTimerFires t s)) = next_el s
     \<and> timers (snd (retryTimerFires t s)) = timers s"
proof -
  have q: "querySelector (t_container t) (markUnscheduled t s) = Some cur"
    and g: "grecaptcha (markUnscheduled t s) = Some g"
    using assms by (simp_all add: markUnscheduled_def)
  have "retryTimerFires t s
      = (Returned, clearInlineError (Some (t_container t)) (markUnscheduled t s))"
    using q g assms(2) by (simp add: retryTimerFires_def attemptRender_unfold)
  then show ?thesis by (simp add: markUnscheduled_def)
qed

lemma rendered_page_facts:
  "querySelector 0 rendered_page = Some rendered_div"
  "truthy (getAttribute rendered_div ''data-recaptcha-widget-id'')"
  "grecaptcha rendered_page = Some working_api"
  "timers rendered_page
     = [\<lparr>t_container = 0, t_el = 0, t_state = \<lparr>attempts = 1, scheduled = True\<rparr>, t_delay = 700\<rparr>]"
  "render_log rendered_page
     = [(1, \<lparr>opt_sitekey = Some ''SITEKEY'', opt_theme = Some ''dark'', opt_size = None\<rparr>)]"
  "next_el rendered_page = 2"
  "map placeholders (containers rendered_page) = [[rendered_div]]"
  by (simp_all add: rendered_page_def submitted_page_def contact_page_def querySelector_def
      truthy_def getAttribute_def rendered_div_def)

theorem retry_after_success_is_noop_witness:
  "run [Submit, ApiDefined working_api, ApiLoaded] contact_page = Some rendered_page
   \<and> querySelector 0 rendered_page = Some rendered_div
   \<and> truthy (getAttribute rendered_div ''data-recaptcha-widget-id'')
   \<and> grecaptcha rendered_page = Some working_api
   \<and> (\<exists>s'. handle (RetryTimer 0) rendered_page = Some s'
         \<and> map placeholders (containers s') = [[rendered_div]]
         \<and> length (render_log s') = 1 \<and> next_el s' = 2 \<and> timers s' = [])"
proof -
  let ?t = "\<lparr>t_container = 0, t_el = 0, t_state = \<lparr>attempts = 1, scheduled = True\<rparr>,
             t_delay = 700\<rparr>"
  let ?s = "rendered_page\<lparr>timers := []\<rparr>"
  have r: "run [Submit, ApiDefined working_api, ApiLoaded] contact_page = Some rendered_page"
    using contact_page_submitted submitted_page_rendered by simp
  have q: "querySelector (t_container ?t) ?s = Some rendered_div"
    and g: "grecaptcha ?s = Some working_api"
    using rendered_page_facts by simp_all
  note noop = retry_after_success_is_noop [OF q rendered_page_facts(2) g]
  have h: "handle (RetryTimer 0) rendered_page = Some (snd (retryTimerFires ?t ?s))"
    by (simp add: handle_def rendered_page_facts)
  show ?thesis
    using r h noop rendered_page_facts by simp
qed

subsection \<open>Running a queue of three callbacks\<close>

lemma querySelector_putElement_eq:
  "querySelector c (putElement old new s)
     = map_option (\<lambda>e. if el_id e = old then new else e) (querySelector c s)"
  by (auto simp: querySelector_def putElement_def split: list.splits)

lemma flaky_api_render:
  "render flaky_api 0 = WidgetId 0" "render flaky_api (Suc 0) = RenderThrows"
  "render flaky_api 2 = WidgetId 2"
  by (simp_all add: flaky_api_def)

lemma widget_div_unrendered:
  "\<not> truthy (getAttribute (widget_div\<lparr>el_id := n\<rparr>) ''data-recaptcha-widget-id'')"
  "\<not> truthy (getAttribute widget_div ''data-recaptcha-widget-id'')"
  by (simp_all add: truthy_def getAttribute_def widget_div_def)

lemma queued_page_rendering:
  "map fst (render_log (runEachOnce [0, 1, 2]
       (queued_page\<lparr>grecaptcha := Some flaky_api, grecaptchaReady := True\<rparr>)))
     = [3, 4, 5]"
proof -
  define s0 where "s0 = queued_page\<lparr>grecaptcha := Some flaky_api, grecaptchaReady := True,
     grecaptchaReadyQueue := [Suc 0, 2]\<rparr>"
  have f0: "grecaptcha s0 = Some flaky_api" "render flaky_api (length (render_log s0)) = WidgetId 0"
    "querySelector 0 s0 = Some widget_div" "next_el s0 = 3" "render_log s0 = []"
    "querySelector (Suc 0) s0 = Some (widget_div\<lparr>el_id := 1\<rparr>)"
    "querySelector 2 s0 = Some (widget_div\<lparr>el_id := 2\<rparr>)"
    "retryState s0 4 = None"
    by (simp_all add: s0_def queued_page_facts flaky_api_render)
      (simp add: queued_page_def three_widgets_page_def contact_page_def)
  have ids: "el_id widget_div = 0" by (simp add: widget_div_def)
  note a0 = attemptRender_renders [OF f0(1,2,3) widget_div_unrendered(2)]
  define s1 where "s1 = (snd (attemptRender (Some 0) s0))\<lparr>grecaptchaReadyQueue := [2]\<rparr>"
  have f1: "grecaptcha s1 = Some flaky_api" "length (render_log s1) = Suc 0"
    "map fst (render_log s1) = [3]"
    "querySelector (Suc 0) s1 = Some (widget_div\<lparr>el_id := 1\<rparr>)" "next_el s1 = 4"
    "retryState s1 (next_el s1) = None"
    "querySelector 2 s1 = Some (widget_div\<lparr>el_id := 2\<rparr>)"
    by (simp_all add: s1_def a0 f0 querySelector_putElement_eq ids)
  have t1: "render flaky_api (length (render_log s1)) = RenderThrows"
    by (simp add: f1 flaky_api_render)
  note a1 = attemptRender_throws [OF f1(1) t1 f1(4) widget_div_unrendered(1) f1(6)]
  define s2 where "s2 = (snd (attemptRender (Some (Suc 0)) s1))\<lparr>grecaptchaReadyQueue := []\<rparr>"
  have f2: "grecaptcha s2 = Some flaky_api" "length (render_log s2) = 2"
    "map fst (render_log s2) = [3, 4]"
    "querySelector 2 s2 = Some (widget_div\<lparr>el_id := 2\<rparr>)" "next_el s2 = 5"
    by (simp_all add: s2_def a1 f1 querySelector_putElement_eq)
  have t2: "render flaky_api (length (render_log s2)) = WidgetId 2"
    by (simp add: f2 flaky_api_render)
  note a2 = attemptRender_renders [OF f2(1) t2 f2(4) widget_div_unrendered(1)]
  have "runEachOnce [0, 1, 2] (queued_page\<lparr>grecaptcha := Some flaky_api, grecaptchaReady := True\<rparr>)
      = snd (attemptRender (Some 2) s2)"
    by (simp only: One_nat_def runEachOnce.simps)
      (simp only: s0_def [symmetric] s1_def [symmetric] s2_def [symmetric])
  then show ?thesis
    by (simp add: a2 f2)
qed

text \<open>
  On the page with three queued closures: queued while the flag is unset, run once
  each in the order queued when the hook is called, the later ones also after an earlier
  one has thrown, and run at once when the flag is set.
\<close>

theorem onRecaptchaApiLoaded_runs_queue_witness:
  "run [DOMContentLoaded, Errored] three_widgets_page = Some queued_page
   \<and> grecaptchaReadyQueue queued_page = [0, 1, 2] \<and> \<not> grecaptchaReady queued_page
   \<and> whenGrecaptchaReady (attemptRender (Some 1)) 1 queued_page
       = (Returned, queued_page\<lparr>grecaptchaReadyQueue := [0, 1, 2, 1]\<rparr>)
   \<and> fst (attemptRender (Some 0)
            (queued_page\<lparr>grecaptchaReady := True, grecaptchaReadyQueue := [1, 2]\<rparr>)) = Threw
   \<and> (\<exists>s'. onRecaptchaApiLoaded queued_page = Some s'
         \<and> grecaptchaReady s' \<and> grecaptchaReadyQueue s' = []
         \<and> map error_box (containers queued_page)
             = [None, None, Some ''reCAPTCHA error occurred. Please try again.'']
         \<and> map error_box (containers s') = [None, None, None]
         \<and> whenGrecaptchaReady (attemptRender (Some 2)) 2 s' = attemptRender (Some 2) s')
   \<and> (\<exists>s'. onRecaptchaApiLoaded (queued_page\<lparr>grecaptcha := Some flaky_api\<rparr>) = Some s'
         \<and> map fst (render_log s') = [3, 4, 5])"
proof -
  note at = onRecaptchaApiLoaded_runs_queue
  define s' where "s' = runEachOnce (grecaptchaReadyQueue queued_page)
     (queued_page\<lparr>grecaptchaReady := True\<rparr>)"
  have a: "onRecaptchaApiLoaded queued_page = Some s'"
    and b: "grecaptchaReady s'" and c: "grecaptchaReadyQueue s' = []"
    using at [of queued_page] by (simp_all add: s'_def)
  have d: "whenGrecaptchaReady (attemptRender (Some 1)) 1 queued_page
       = (Returned, queued_page\<lparr>grecaptchaReadyQueue := [0, 1, 2, 1]\<rparr>)"
    using at [of queued_page "attemptRender (Some 1)" 1] queued_page_facts by simp
  have e: "whenGrecaptchaReady (attemptRender (Some 2)) 2 s' = attemptRender (Some 2) s'"
    using at [of s' "attemptRender (Some 2)" 2] b by simp
  have f: "map error_box (containers s') = [None, None, None]"
    unfolding s'_def queued_page_facts queued_page_throwing by (rule queued_page_cleared)
  have g: "fst (attemptRender (Some 0)
            (queued_page\<lparr>grecaptchaReady := True, grecaptchaReadyQueue := [1, 2]\<rparr>)) = Threw"
    by (subst attemptRender_overflow) (simp_all add: queued_page_facts)
  have h: "map error_box (containers queued_page)
             = [None, None, Some ''reCAPTCHA error occurred. Please try again.'']"
    by (simp add: queued_page_def)
  have i: "onRecaptchaApiLoaded (queued_page\<lparr>grecaptcha := Some flaky_api\<rparr>)
      = Some (runEachOnce [0, 1, 2]
          (queued_page\<lparr>grecaptcha := Some flaky_api, grecaptchaReady := True\<rparr>))"
    using at [of "queued_page\<lparr>grecaptcha := Some flaky_api\<rparr>"] queued_page_facts by simp
  show ?thesis
    using queued_page_run queued_page_facts a b c d e f g h i queued_page_rendering by simp
qed

subsection \<open>The attempt counter and the rendered size\<close>

lemma submitted_page_retried: "handle (RetryTimer 0) submitted_page = Some retried_page"
  apply (simp add: eval_defs page_defs submitted_page_def retried_page_def)
  apply (simp add: Let_def eval_defs numeral_2_eq_2)
  done

lemma retried_page_fails:
  "\<exists>s'. handle (RetryTimer 0) (retried_page\<lparr>grecaptcha := Some failing_api\<rparr>) = Some s'
     \<and> placeholderAttempts 0 s' = 1 \<and> map t_delay (timers s') = [700]
     \<and> length (render_log s') = 1"
proof -
  let ?t = "\<lparr>t_container = 0, t_el = 0, t_state = \<lparr>attempts = 2, scheduled = True\<rparr>,
             t_delay = 1400\<rparr>"
  define s0 where "s0 = markUnscheduled ?t (retried_page\<lparr>grecaptcha := Some failing_api, timers := []\<rparr>)"
  have f: "grecaptcha s0 = Some failing_api" "querySelector 0 s0 = Some widget_div"
    "retryState s0 (next_el s0) = None" "next_el s0 = 1" "timers s0 = []" "render_log s0 = []"
    by (simp_all add: s0_def markUnscheduled_def retried_page_def submitted_page_def
        contact_page_def querySelector_def)
  note step = attemptRender_throws [OF f(1) failing_api_throws f(2) widget_div_unrendered(2) f(3)]
  have h: "handle (RetryTimer 0) (retried_page\<lparr>grecaptcha := Some failing_api\<rparr>)
      = Some (snd (attemptRender (Some 0) s0))"
    by (simp add: handle_def retryTimerFires_def s0_def retried_page_def)
  have q: "querySelector 0 (snd (attemptRender (Some 0) s0))
      = Some (createReplacement widget_div (desiredSize s0) 1)"
    by (simp add: step f querySelector_putElement_eq widget_div_def)
  have "placeholderAttempts 0 (snd (attemptRender (Some 0) s0)) = 1"
    unfolding placeholderAttempts_def q by (simp add: step f retryOf_def)
  then show ?thesis
    using h by (simp add: step f)
qed

text \<open>
  C3, as the code has it: two attempts while \<^verbatim>\<open>grecaptcha\<close> is missing bring the
  count of the container's placeholder to 2 and the delay to 1400 ms; then
  \<^verbatim>\<open>grecaptcha\<close> appears with a \<^verbatim>\<open>render\<close> that throws, and after the one failed
  render call the count is 1 and the delay 700 ms again, though no render has succeeded.
\<close>

theorem failed_render_resets_attempts:
  "observe (\<lambda>s. (placeholderAttempts 0 s, map t_delay (timers s), length (render_log s)))
     [Submit, RetryTimer 0, ApiDefined failing_api, RetryTimer 0] contact_page
   = [(1, [700], 0), (2, [1400], 0), (2, [1400], 0), (1, [700], 1)]
   \<and> render failing_api 0 = RenderThrows"
proof -
  obtain s' where ex: "handle (RetryTimer 0) (retried_page\<lparr>grecaptcha := Some failing_api\<rparr>) = Some s'
     \<and> placeholderAttempts 0 s' = 1 \<and> map t_delay (timers s') = [700]
     \<and> length (render_log s') = 1"
    using retried_page_fails ..
  then have s': "handle (RetryTimer 0) (retried_page\<lparr>grecaptcha := Some failing_api\<rparr>) = Some s'"
    "placeholderAttempts 0 s' = 1" "map t_delay (timers s') = [700]" "length (render_log s') = 1"
    by blast+
  have a: "placeholderAttempts 0 submitted_page = 1" "map t_delay (timers submitted_page) = [700]"
    "render_log submitted_page = []"
    by (simp_all add: placeholderAttempts_def querySelector_def retryOf_def submitted_page_def
        contact_page_def widget_div_def)
  have b: "placeholderAttempts 0 retried_page = 2" "map t_delay (timers retried_page) = [1400]"
    "render_log retried_page = []"
    by (simp_all add: placeholderAttempts_def querySelector_def retryOf_def retried_page_def
        submitted_page_def contact_page_def widget_div_def)
  have c: "placeholderAttempts 0 (retried_page\<lparr>grecaptcha := Some failing_api\<rparr>) = 2"
    "map t_delay (timers (retried_page\<lparr>grecaptcha := Some failing_api\<rparr>)) = [1400]"
    "render_log (retried_page\<lparr>grecaptcha := Some failing_api\<rparr>) = []"
    by (simp_all add: placeholderAttempts_def querySelector_def retryOf_def retried_page_def
        submitted_page_def contact_page_def widget_div_def)
  have d: "handle (ApiDefined failing_api) retried_page
      = Some (retried_page\<lparr>grecaptcha := Some failing_api\<rparr>)"
    by (simp add: handle_def)
  have "observe (\<lambda>s. (placeholderAttempts 0 s, map t_delay (timers s), length (render_log s)))
     [Submit, RetryTimer 0, ApiDefined failing_api, RetryTimer 0] contact_page
   = [(1, [700], 0), (2, [1400], 0), (2, [1400], 0), (1, [700], 1)]"
    by (simp only: observe.simps contact_page_submitted submitted_page_retried d s'(1) option.case)
      (simp add: a b c s')
  then show ?thesis
    using failing_api_throws by simp
qed

text \<open>
  C7, as the code has it: the widget of the example page is rendered at normal size on
  a wide screen; the window is then resized to 360 px, where the desired size is
  compact, and the debounce timer fires. Nothing but the width has changed: the
  placeholder is the same node with the same size, and \<^verbatim>\<open>render\<close> was not called.
\<close>

theorem resize_keeps_rendered_size:
  "run [Submit, ApiDefined working_api, ApiLoaded] contact_page = Some rendered_page
   \<and> getAttribute rendered_div ''data-recaptcha-rendered-size'' = Some []
   \<and> desiredSize (rendered_page\<lparr>innerWidth := 360\<rparr>) = Some ''compact''
   \<and> run [Resize 360, ResizeTimer] rendered_page = Some (rendered_page\<lparr>innerWidth := 360\<rparr>)"
proof -
  have r: "run [Submit, ApiDefined working_api, ApiLoaded] contact_page = Some rendered_page"
    using contact_page_submitted submitted_page_rendered by simp
  define s where "s = rendered_page\<lparr>innerWidth := 360, resizeTimer := False\<rparr>"
  have f: "querySelector 0 s = Some rendered_div" "grecaptcha s = Some working_api"
    "containers s = [\<lparr>recaptcha_hidden = False, error_box = None, placeholders = [rendered_div]\<rparr>]"
    "desiredSize s = Some ''compact''"
    by (simp_all add: s_def rendered_page_def submitted_page_def contact_page_def
        querySelector_def desiredSize_def BREAKPOINT_def)
  have ar: "attemptRender (Some 0) s = (Returned, clearInlineError (Some 0) s)"
    using f rendered_page_facts(2) by (simp add: attemptRender_unfold)
  have ce: "clearInlineError (Some 0) s = s"
    by (simp add: clearInlineError_def updateContainer_def f)
  have "applyCompact s = (Returned, s)"
    by (simp add: applyCompact_def f ar ce closestContainer_def getAttribute_def rendered_div_def
        orEmpty_def truthy_def)
  then have "run [Resize 360, ResizeTimer] rendered_page = Some s"
    by (simp add: handle_def onResize_def s_def)
  moreover have "s = rendered_page\<lparr>innerWidth := 360\<rparr>"
    by (simp add: s_def rendered_page_def submitted_page_def contact_page_def)
  moreover have "getAttribute rendered_div ''data-recaptcha-rendered-size'' = Some []"
    by (simp add: getAttribute_def rendered_div_def)
  ultimately show ?thesis
    using r f(4) by (simp add: desiredSize_def)
qed

subsection \<open>The success callback\<close>











subsection \<open>Render failures in a row\<close>

lemma revealContainer_frame [simp]:
  "grecaptcha (revealContainer c s) = grecaptcha s"
  "grecaptchaReady (revealContainer c s) = grecaptchaReady s"
  "next_el (revealContainer c s) = next_el s"
  "retryState (revealContainer c s) = retryState s"
  "timers (revealContainer c s) = timers s"
  "allowSubmit (revealContainer c s) = allowSubmit s"
  "form (revealContainer c s) = form s"
  "submissions (revealContainer c s) = submissions s"
  "render_log (revealContainer c s) = render_log s"
  by (simp_all add: revealContainer_def)

lemma querySelector_revealContainer [simp]:
  "querySelector k (revealContainer c s) = querySelector k s"
proof -
  have "map placeholders (containers (revealContainer c s)) = map placeholders (containers s)"
    by (simp add: revealContainer_def updateContainer_placeholders)
  then show ?thesis by (rule querySelector_placeholders)
qed

lemma putElement_form [simp]:
  "allowSubmit (putElement old new s) = allowSubmit s"
  "form (putElement old new s) = form s"
  "submissions (putElement old new s) = submissions s"
  by (simp_all add: putElement_def)

text \<open>
  One failed render on such a page: the placeholder is replaced by the node made next,
  and a timer of 700 ms is added for that node.
\<close>

lemma render_failing_attempt:
  assumes g: "grecaptcha s = Some failing_api" and q: "querySelector 0 s = Some cur"
    and k: "''data-recaptcha-widget-id'' \<notin> fst ` set (attributes cur)"
    and fr: "\<forall>e \<ge> next_el s. retryState s e = None"
    and tb: "\<forall>t \<in> set (timers s). t_el t < next_el s"
    and na: "\<not> allowSubmit s" and fm: "form s = Some f" and rc: "recaptcha_container f = Some 0"
  shows "render_failing (snd (attemptRender (Some 0) s))"
    and "timers (snd (attemptRender (Some 0) s)) = timers s @ [first_timer (next_el s)]"
    and "next_el (snd (attemptRender (Some 0) s)) = Suc (next_el s)"
proof -
  define new where "new = createReplacement cur (desiredSize s) (next_el s)"
  define s' where "s' = snd (attemptRender (Some 0) s)"
  have nw: "\<not> truthy (getAttribute cur ''data-recaptcha-widget-id'')"
    using getAttribute_absent [OF k] by (simp add: truthy_def)
  have f0: "retryState s (next_el s) = None" using fr by simp
  note step = attemptRender_throws [OF g failing_api_throws q nw f0]
  have q': "querySelector 0 s' = Some new"
    using querySelector_putElement
      [of 0 "(clearInlineError (Some 0) s)\<lparr>next_el := Suc (next_el s)\<rparr>" cur new] q
    by (simp add: s'_def step new_def)
  have k': "''data-recaptcha-widget-id'' \<notin> fst ` set (attributes new)"
    using keys_createReplacement [of cur "desiredSize s" "next_el s"] k
    unfolding new_def by auto
  have t': "timers s' = timers s @ [first_timer (next_el s)]"
    by (simp add: s'_def step first_timer_def)
  have n': "next_el s' = Suc (next_el s)"
    by (simp add: s'_def step)
  have fr': "\<forall>e \<ge> next_el s'. retryState s' e = None"
    using fr by (auto simp: s'_def step)
  have tb': "\<forall>t \<in> set (timers s'). t_el t < next_el s'"
    using tb by (auto simp: t' n' first_timer_def less_Suc_eq)
  have o': "grecaptcha s' = Some failing_api" "\<not> allowSubmit s'" "form s' = Some f"
    using g na fm by (simp_all add: s'_def step)
  show "render_failing (snd (attemptRender (Some 0) s))"
    unfolding render_failing_def s'_def [symmetric]
    using q' k' fr' tb' o' rc by blast
  show "timers (snd (attemptRender (Some 0) s)) = timers s @ [first_timer (next_el s)]"
    using t' by (simp add: s'_def)
  show "next_el (snd (attemptRender (Some 0) s)) = Suc (next_el s)"
    using n' by (simp add: s'_def)
qed

lemma render_failing_submit:
  assumes "render_failing s"
  shows "\<exists>s'. handle Submit s = Some s' \<and> render_failing s'
     \<and> timers s' = timers s @ [first_timer (next_el s)] \<and> next_el s' = Suc (next_el s)"
proof -
  obtain cur f where g: "grecaptcha s = Some failing_api" and q: "querySelector 0 s = Some cur"
    and k: "''data-recaptcha-widget-id'' \<notin> fst ` set (attributes cur)"
    and fr: "\<forall>e \<ge> next_el s. retryState s e = None"
    and tb: "\<forall>t \<in> set (timers s). t_el t < next_el s"
    and na: "\<not> allowSubmit s" and fm: "form s = Some f" and rc: "recaptcha_container f = Some 0"
    using assms unfolding render_failing_def by blast
  define s1 where "s1 = revealContainer 0 s"
  have h: "handle Submit s = Some (snd (attemptRender (Some 0) s1))"
    using na fm rc
    by (simp add: handle_def onSubmitForm_def proceeds_def Let_def case_prod_beta s1_def)
  have p: "grecaptcha s1 = Some failing_api" "querySelector 0 s1 = Some cur"
    "\<forall>e \<ge> next_el s1. retryState s1 e = None" "\<forall>t \<in> set (timers s1). t_el t < next_el s1"
    "\<not> allowSubmit s1" "form s1 = Some f"
    using g q fr tb na fm by (simp_all add: s1_def)
  note r = render_failing_attempt [OF p(1) p(2) k p(3) p(4) p(5) p(6) rc]
  show ?thesis
    using h r by (simp add: s1_def)
qed

lemma render_failing_retry:
  assumes "render_failing s" and ts: "timers s = [t]" and tc: "t_container t = 0"
  shows "\<exists>s'. handle (RetryTimer 0) s = Some s' \<and> render_failing s'
     \<and> timers s' = [first_timer (next_el s)] \<and> next_el s' = Suc (next_el s)"
proof -
  obtain cur f where g: "grecaptcha s = Some failing_api" and q: "querySelector 0 s = Some cur"
    and k: "''data-recaptcha-widget-id'' \<notin> fst ` set (attributes cur)"
    and fr: "\<forall>e \<ge> next_el s. retryState s e = None"
    and tb: "\<forall>t \<in> set (timers s). t_el t < next_el s"
    and na: "\<not> allowSubmit s" and fm: "form s = Some f" and rc: "recaptcha_container f = Some 0"
    using assms(1) unfolding render_failing_def by blast
  define s0 where "s0 = markUnscheduled t (s\<lparr>timers := []\<rparr>)"
  have h: "handle (RetryTimer 0) s = Some (snd (attemptRender (Some 0) s0))"
    using ts tc by (simp add: handle_def retryTimerFires_def s0_def)
  have te: "t_el t < next_el s" using tb ts by simp
  have p: "grecaptcha s0 = Some failing_api" "querySelector 0 s0 = Some cur"
    "\<forall>e \<ge> next_el s0. retryState s0 e = None" "\<forall>t \<in> set (timers s0). t_el t < next_el s0"
    "\<not> allowSubmit s0" "form s0 = Some f"
    using g q fr te na fm by (simp_all add: s0_def markUnscheduled_def)
  note r = render_failing_attempt [OF p(1) p(2) k p(3) p(4) p(5) p(6) rc]
  have "timers s0 = []" "next_el s0 = next_el s"
    by (simp_all add: s0_def markUnscheduled_def)
  then show ?thesis
    using h r by simp
qed

lemma failing_page_render_failing:
  "render_failing failing_page" "timers failing_page = []" "next_el failing_page = 1"
proof -
  have "querySelector 0 failing_page = Some widget_div"
    by (simp add: failing_page_def contact_page_def querySelector_def)
  moreover have "''data-recaptcha-widget-id'' \<notin> fst ` set (attributes widget_div)"
    by (simp add: widget_div_def)
  ultimately show "render_failing failing_page"
    unfolding render_failing_def
    by (simp add: failing_page_def contact_page_def)
  show "timers failing_page = []" "next_el failing_page = 1"
    by (simp_all add: failing_page_def contact_page_def)
qed

lemma render_failing_submits:
  "render_failing s \<Longrightarrow>
     map_option timers (run (replicate n Submit) s)
       = Some (timers s @ map (\<lambda>i. first_timer (next_el s + i)) [0..<n])"
proof (induction n arbitrary: s)
  case 0
  then show ?case by simp
next
  case (Suc n)
  obtain s' where s': "handle Submit s = Some s'" "render_failing s'"
    "timers s' = timers s @ [first_timer (next_el s)]" "next_el s' = Suc (next_el s)"
    using render_failing_submit [OF Suc.prems] by blast
  have "map (\<lambda>i. first_timer (next_el s + i)) [0..<Suc n]
      = first_timer (next_el s) # map (\<lambda>i. first_timer (Suc (next_el s) + i)) [0..<n]"
    by (simp add: map_upt_Suc del: upt_Suc)
  then show ?case
    using Suc.IH [OF s'(2)] s' by (simp del: upt_Suc)
qed

lemma render_failing_retries:
  "render_failing s \<Longrightarrow> timers s = [first_timer k] \<Longrightarrow> next_el s = Suc k \<Longrightarrow>
     map_option timers (run (replicate n (RetryTimer 0)) s) = Some [first_timer (k + n)]"
proof (induction n arbitrary: s k)
  case 0
  then show ?case by simp
next
  case (Suc n)
  have tc: "t_container (first_timer k) = 0" by (simp add: first_timer_def)
  obtain s' where s': "handle (RetryTimer 0) s = Some s'" "render_failing s'"
    "timers s' = [first_timer (next_el s)]" "next_el s' = Suc (next_el s)"
    using render_failing_retry [OF Suc.prems(1,2) tc] by blast
  show ?case
    using Suc.IH [OF s'(2), of "Suc k"] s' Suc.prems(3) by simp
qed

text \<open>
  C8, as the code has it: with a \<^verbatim>\<open>render\<close> that throws on every call, each of
  \<open>n\<close> submits in a row, none of the timers having fired yet, adds a retry timer for
  the one container of the page, so \<open>n\<close> timers of 700 ms are pending for it at once.
  Each failed render has replaced the placeholder, and the \<^verbatim>\<open>scheduled\<close> flag of the
  node before it does not stop \<^verbatim>\<open>scheduleRenderAttempt\<close> on the new node.
\<close>

theorem render_failures_stack_timers:
  "map_option timers (run (replicate n Submit) failing_page)
     = Some (map (\<lambda>i. \<lparr>t_container = 0, t_el = Suc i,
                          t_state = \<lparr>attempts = 1, scheduled = True\<rparr>, t_delay = 700\<rparr>)
               [0..<n])
   \<and> render failing_api k = RenderThrows"
  using render_failing_submits [OF failing_page_render_failing(1), of n]
  by (simp add: failing_page_render_failing first_timer_def failing_api_throws)

text \<open>
  C4, as the code has it: with a \<^verbatim>\<open>render\<close> that throws on every call, the timer
  pending after the submit and \<open>n\<close> retries is for node \<open>n + 1\<close>, with the count at 1
  and a delay of 700 ms, which is the base delay times 2 to the power of the count 0
  that \<^verbatim>\<open>scheduleRenderAttempt\<close> found for that node. The delays of consecutive
  retries for the placeholder of the container are 700, 700, 700 and so on.
\<close>

theorem backoff_restarts_on_replaced_node:
  "map_option timers (run (Submit # replicate n (RetryTimer 0)) failing_page)
     = Some [\<lparr>t_container = 0, t_el = Suc n,
               t_state = \<lparr>attempts = 1, scheduled = True\<rparr>,
               t_delay = RETRY_BASE_MS * 2 ^ 0\<rparr>]
   \<and> RETRY_BASE_MS * 2 ^ 0 = 700
   \<and> render failing_api k = RenderThrows"
proof -
  obtain s' where s': "handle Submit failing_page = Some s'" "render_failing s'"
    "timers s' = timers failing_page @ [first_timer (next_el failing_page)]"
    "next_el s' = Suc (next_el failing_page)"
    using render_failing_submit [OF failing_page_render_failing(1)] by blast
  have "map_option timers (run (replicate n (RetryTimer 0)) s') = Some [first_timer (1 + n)]"
    using render_failing_retries [OF s'(2), of 1 n] s'(3,4)
    by (simp add: failing_page_render_failing)
  then show ?thesis
    using s'(1) by (simp add: first_timer_def RETRY_BASE_MS_def failing_api_throws)
qed

subsection \<open>Submit interception\<close>

lemma attemptRender_gate [simp]:
  "submit_gate (snd (attemptRender c s)) = submit_gate s"
proof (cases c)
  case None
  then show ?thesis by (simp add: attemptRender_def attemptRender_depth_null)
next
  case (Some k)
  then show ?thesis
    by (simp add: attemptRender_unfold submit_gate_def Let_def case_prod_beta
        split: option.splits)
qed

lemma submit_gate_fields [simp]:
  "submit_gate (s\<lparr>grecaptchaReadyQueue := q\<rparr>) = submit_gate s"
  "submit_gate (s\<lparr>grecaptchaReady := b\<rparr>) = submit_gate s"
  "submit_gate (s\<lparr>grecaptcha := g\<rparr>) = submit_gate s"
  "submit_gate (s\<lparr>timers := ts\<rparr>) = submit_gate s"
  "submit_gate (s\<lparr>scroll_timers := st\<rparr>) = submit_gate s"
  "submit_gate (s\<lparr>resizeTimer := r\<rparr>) = submit_gate s"
  "submit_gate (s\<lparr>innerWidth := w\<rparr>) = submit_gate s"
  "submit_gate (s\<lparr>reset_log := l\<rparr>) = submit_gate s"
  "submit_gate (markUnscheduled t s) = submit_gate s"
  "submit_gate (revealContainer c s) = submit_gate s"
  "submit_gate (showInlineError k m s) = submit_gate s"
  "submit_gate (scheduleRenderAttempt k s) = submit_gate s"
  by (simp_all add: submit_gate_def markUnscheduled_def)

lemma forEachCaptcha_gate [simp]:
  "submit_gate (snd (forEachCaptcha sz els s)) = submit_gate s"
proof (induction els arbitrary: s)
  case Nil
  then show ?case by simp
next
  case (Cons el rest)
  show ?case
  proof (cases "closestContainer (el_id el) s")
    case None
    then show ?thesis using Cons.IH [of s] by (simp add: Let_def)
  next
    case (Some c)
    have "submit_gate (snd (forEachCaptcha sz rest (snd (attemptRender (Some c) s))))
        = submit_gate s"
      using Cons.IH [of "snd (attemptRender (Some c) s)"] by simp
    then show ?thesis
      using Some Cons.IH [of s] by (simp add: Let_def case_prod_beta)
  qed
qed

lemma runEachOnce_gate [simp]: "submit_gate (runEachOnce q s) = submit_gate s"
  by (induction q arbitrary: s) simp_all

lemma attemptRender_throws_iff:
  "fst (attemptRender (Some c) s) = Threw
     \<longleftrightarrow> querySelector c s \<noteq> None \<and> grecaptcha s = None \<and> grecaptchaReady s"
  by (auto simp: attemptRender_unfold Let_def case_prod_beta split: option.splits)

lemma revealContainer_shown: "\<not> containerHidden c (revealContainer c s)"
  by (simp add: revealContainer_def containerHidden_def updateContainer_def)

text \<open>
  While the flag is not set and the form has its container, no event but the success
  callback touches the form, the flag or the count of submissions.
\<close>

lemma handle_gate:
  assumes fm: "form s = Some fm" and rc: "recaptcha_container fm = Some c"
    and na: "\<not> allowSubmit s" and ns: "\<forall>tok. ev \<noteq> Solved tok"
  shows "\<exists>s'. handle ev s = Some s' \<and> submit_gate s' = submit_gate s"
proof (cases ev)
  case Submit
  have "onSubmitForm True s
      = (\<lparr>defaultPrevented = True,
           returnValue = (if fst (attemptRender (Some c) (revealContainer c s)) = Threw
                          then None else Some False)\<rparr>,
         snd (attemptRender (Some c) (revealContainer c s)))"
    using fm rc na by (simp add: onSubmitForm_def Let_def case_prod_beta)
  then show ?thesis using Submit by (simp add: handle_def proceeds_def)
next
  case (RetryTimer i)
  then show ?thesis by (simp add: handle_def retryTimerFires_def)
next
  case ScrollTimer
  then show ?thesis by (simp add: handle_def)
next
  case (ApiDefined g)
  then show ?thesis by (simp add: handle_def)
next
  case ApiLoaded
  then show ?thesis by (simp add: handle_def onRecaptchaApiLoaded_eq)
next
  case (Resize w)
  then show ?thesis by (simp add: handle_def onResize_def)
next
  case ResizeTimer
  then show ?thesis by (simp add: handle_def applyCompact_def)
next
  case DOMContentLoaded
  then show ?thesis by (simp add: handle_def applyCompact_def)
next
  case (Solved token)
  then show ?thesis using ns by simp
next
  case Expired
  then show ?thesis
    by (simp add: handle_def onRecaptchaExpired_def Let_def split: option.splits)
next
  case Errored
  then show ?thesis by (simp add: handle_def onRecaptchaError_def Let_def)
qed

lemma run_gate:
  assumes "form s = Some fm" and "recaptcha_container fm = Some c"
    and "\<not> allowSubmit s" and "\<forall>tok. Solved tok \<notin> set evs"
  shows "\<exists>s'. run evs s = Some s' \<and> submit_gate s' = submit_gate s"
  using assms
proof (induction evs arbitrary: s)
  case Nil
  then show ?case by simp
next
  case (Cons ev evs)
  have ns: "\<forall>tok. ev \<noteq> Solved tok" and rest: "\<forall>tok. Solved tok \<notin> set evs"
    using Cons.prems(4) by auto
  obtain s1 where s1: "handle ev s = Some s1" "submit_gate s1 = submit_gate s"
    using handle_gate [OF Cons.prems(1,2,3) ns] by blast
  have "form s1 = Some fm" "\<not> allowSubmit s1"
    using s1(2) Cons.prems(1,3) by (simp_all add: submit_gate_def)
  then obtain s' where "run evs s1 = Some s'" "submit_gate s' = submit_gate s1"
    using Cons.IH [OF _ Cons.prems(2) _ rest] by blast
  then show ?case using s1 by simp
qed

text \<open>form.js: as long as no widget reports a response, every submit event is intercepted.\<close>

lemma renderRecaptchaIfNeeded_frame [simp]:
  "pendingForm (renderRecaptchaIfNeeded x) = pendingForm x"
  "challenge_container (renderRecaptchaIfNeeded x) = challenge_container x"
  "fj_submissions (renderRecaptchaIfNeeded x) = fj_submissions x"
  "scrolls (renderRecaptchaIfNeeded x) = scrolls x"
  "fj_grecaptcha (renderRecaptchaIfNeeded x) = fj_grecaptcha x"
  by (simp_all add: renderRecaptchaIfNeeded_def Let_def
      split: option.splits render_result.splits)

lemma showRecaptcha_frame [simp]:
  "fj_submissions (showRecaptcha x) = fj_submissions x"
  "fj_grecaptcha (showRecaptcha x) = fj_grecaptcha x"
  by (simp_all add: showRecaptcha_def Let_def split: option.splits)

lemma submitEvents_unanswered:
  assumes "\<forall>g w. fj_grecaptcha s = Some g \<longrightarrow> getResponse g w = []"
    and "\<forall>e \<in> set evs. ev_target e \<noteq> None"
  shows "fj_submissions (submitEvents evs s) = fj_submissions s"
  using assms
proof (induction evs arbitrary: s)
  case Nil
  then show ?case by simp
next
  case (Cons ev evs)
  obtain f where f: "ev_target ev = Some f" using Cons.prems(2) by auto
  have nr: "\<not> hasResponse s"
    using Cons.prems(1) by (simp add: hasResponse_def split: option.splits)
  define s1 where "s1 = showRecaptcha (s\<lparr>pendingForm := Some f\<rparr>)"
  have o: "onSubmitForm_form ev s
      = (\<lparr>defaultPrevented = True, returnValue = Some False\<rparr>, s1)"
    using f nr by (simp add: onSubmitForm_form_def s1_def)
  have g1: "\<forall>g w. fj_grecaptcha s1 = Some g \<longrightarrow> getResponse g w = []"
    using Cons.prems(1) by (simp add: s1_def)
  have "fj_submissions (submitEvents evs s1) = fj_submissions s1"
    using Cons.IH [OF g1] Cons.prems(2) by simp
  then show ?case
    by (simp add: o proceeds_def) (simp add: s1_def)
qed

text \<open>
  C1, amended. With the form as the event's target and a challenge container on the
  page, \<^verbatim>\<open>onSubmitForm\<close> of form.js returns true without \<^verbatim>\<open>preventDefault\<close> and
  leaves everything as it is when a widget is rendered and its response is not empty;
  otherwise it calls \<^verbatim>\<open>preventDefault\<close>, returns false, stores the form in
  \<^verbatim>\<open>pendingForm\<close>, shows the container, calls \<^verbatim>\<open>renderRecaptchaIfNeeded\<close> and
  submits nothing. As long as no widget reports a response, any number of submit events
  on the form leave it unsubmitted.

  \<^verbatim>\<open>onSubmitForm\<close> of recaptcha-display.js, on a form with a challenge container,
  never reads the response and keeps no pending form. When \<^verbatim>\<open>allowSubmit\<close> is set it
  clears the flag and returns true without \<^verbatim>\<open>preventDefault\<close>. When it is not set,
  it calls \<^verbatim>\<open>preventDefault\<close>, shows the container, calls \<^verbatim>\<open>attemptRender\<close> and
  submits nothing, and the browser does not submit either; it returns false, except
  that it throws where \<^verbatim>\<open>attemptRender\<close> throws, which is when the container has a
  placeholder, \<^verbatim>\<open>grecaptcha.render\<close> is missing and the ready flag is set. From
  such a state, whatever events follow, the form is not submitted and the flag stays
  unset until the success callback runs.
\<close>

theorem submit_interception:
  "(ev_target ev = Some f \<and> challenge_container s = Some k \<longrightarrow>
      (hasResponse s \<longrightarrow>
         onSubmitForm_form ev s = (\<lparr>defaultPrevented = False, returnValue = Some True\<rparr>, s))
      \<and> (\<not> hasResponse s \<longrightarrow>
           fst (onSubmitForm_form ev s) = \<lparr>defaultPrevented = True, returnValue = Some False\<rparr>
           \<and> \<not> proceeds (fst (onSubmitForm_form ev s))
           \<and> snd (onSubmitForm_form ev s)
               = (renderRecaptchaIfNeeded
                    (s\<lparr>pendingForm := Some f,
                       challenge_container :=
                         Some (k\<lparr>has_hidden_class := False, has_visible_class := True\<rparr>)\<rparr>))
                   \<lparr>scrolls := Suc (scrolls s)\<rparr>
           \<and> pendingForm (snd (onSubmitForm_form ev s)) = Some f
           \<and> challenge_container (snd (onSubmitForm_form ev s))
               = Some (k\<lparr>has_hidden_class := False, has_visible_class := True\<rparr>)
           \<and> fj_submissions (snd (onSubmitForm_form ev s)) = fj_submissions s))
   \<and> ((\<forall>g w. fj_grecaptcha s = Some g \<longrightarrow> getResponse g w = [])
        \<and> (\<forall>e \<in> set evs. ev_target e \<noteq> None)
      \<longrightarrow> fj_submissions (submitEvents evs s) = fj_submissions s)
   \<and> (form t = Some fm \<and> recaptcha_container fm = Some c \<longrightarrow>
      (allowSubmit t \<longrightarrow>
         onSubmitForm True t
           = (\<lparr>defaultPrevented = False, returnValue = Some True\<rparr>, t\<lparr>allowSubmit := False\<rparr>))
      \<and> (\<not> allowSubmit t \<longrightarrow>
           fst (onSubmitForm True t)
             = \<lparr>defaultPrevented = True,
                returnValue = (if querySelector c t \<noteq> None \<and> grecaptcha t = None
                                  \<and> grecaptchaReady t
                               then None else Some False)\<rparr>
           \<and> \<not> proceeds (fst (onSubmitForm True t))
           \<and> snd (onSubmitForm True t) = snd (attemptRender (Some c) (revealContainer c t))
           \<and> \<not> containerHidden c (revealContainer c t)
           \<and> submissions (snd (onSubmitForm True t)) = submissions t
           \<and> ((\<forall>tok. Solved tok \<notin> set tevs)
              \<longrightarrow> (\<exists>t'. run tevs t = Some t' \<and> submissions t' = submissions t
                    \<and> \<not> allowSubmit t' \<and> form t' = form t))))"
proof -
  have a: "ev_target ev = Some f \<and> challenge_container s = Some k \<longrightarrow>
      (hasResponse s \<longrightarrow>
         onSubmitForm_form ev s = (\<lparr>defaultPrevented = False, returnValue = Some True\<rparr>, s))
      \<and> (\<not> hasResponse s \<longrightarrow>
           fst (onSubmitForm_form ev s) = \<lparr>defaultPrevented = True, returnValue = Some False\<rparr>
           \<and> \<not> proceeds (fst (onSubmitForm_form ev s))
           \<and> snd (onSubmitForm_form ev s)
               = (renderRecaptchaIfNeeded
                    (s\<lparr>pendingForm := Some f,
                       challenge_container :=
                         Some (k\<lparr>has_hidden_class := False, has_visible_class := True\<rparr>)\<rparr>))
                   \<lparr>scrolls := Suc (scrolls s)\<rparr>
           \<and> pendingForm (snd (onSubmitForm_form ev s)) = Some f
           \<and> challenge_container (snd (onSubmitForm_form ev s))
               = Some (k\<lparr>has_hidden_class := False, has_visible_class := True\<rparr>)
           \<and> fj_submissions (snd (onSubmitForm_form ev s)) = fj_submissions s)"
    by (simp add: onSubmitForm_form_def showRecaptcha_def proceeds_def Let_def)
  have u: "(\<forall>g w. fj_grecaptcha s = Some g \<longrightarrow> getResponse g w = [])
        \<and> (\<forall>e \<in> set evs. ev_target e \<noteq> None)
      \<longrightarrow> fj_submissions (submitEvents evs s) = fj_submissions s"
    using submitEvents_unanswered [of s evs] by blast
  have b1: "form t = Some fm \<and> recaptcha_container fm = Some c \<and> allowSubmit t \<longrightarrow>
         onSubmitForm True t
           = (\<lparr>defaultPrevented = False, returnValue = Some True\<rparr>, t\<lparr>allowSubmit := False\<rparr>)"
    by (simp add: onSubmitForm_def)
  have b2: "fst (onSubmitForm True t)
             = \<lparr>defaultPrevented = True,
                returnValue = (if querySelector c t \<noteq> None \<and> grecaptcha t = None
                                  \<and> grecaptchaReady t
                               then None else Some False)\<rparr>
           \<and> \<not> proceeds (fst (onSubmitForm True t))
           \<and> snd (onSubmitForm True t) = snd (attemptRender (Some c) (revealContainer c t))
           \<and> \<not> containerHidden c (revealContainer c t)
           \<and> submissions (snd (onSubmitForm True t)) = submissions t"
    if h: "form t = Some fm" "recaptcha_container fm = Some c" "\<not> allowSubmit t"
  proof -
    have o: "onSubmitForm True t
      = (\<lparr>defaultPrevented = True,
           returnValue = (if fst (attemptRender (Some c) (revealContainer c t)) = Threw
                          then None else Some False)\<rparr>,
         snd (attemptRender (Some c) (revealContainer c t)))"
      using h by (simp add: onSubmitForm_def Let_def case_prod_beta)
    have g: "submit_gate (snd (attemptRender (Some c) (revealContainer c t))) = submit_gate t"
      by simp
    have sb: "submissions (snd (attemptRender (Some c) (revealContainer c t))) = submissions t"
      using g by (simp add: submit_gate_def)
    show ?thesis
      unfolding o
      by (simp add: attemptRender_throws_iff proceeds_def revealContainer_shown sb)
  qed
  have b3: "\<exists>t'. run tevs t = Some t' \<and> submissions t' = submissions t
                    \<and> \<not> allowSubmit t' \<and> form t' = form t"
    if h: "form t = Some fm" "recaptcha_container fm = Some c" "\<not> allowSubmit t"
      and ns: "\<forall>tok. Solved tok \<notin> set tevs"
  proof -
    obtain t' where "run tevs t = Some t'" "submit_gate t' = submit_gate t"
      using run_gate [OF h ns] by blast
    then show ?thesis using h(3) by (auto simp: submit_gate_def)
  qed
  from a u b1 b2 b3 show ?thesis by blast
qed

lemma solved_page_facts:
  "querySelector 0 solved_page = Some rendered_div"
  "grecaptcha solved_page = Some solved_api"
  "\<not> allowSubmit solved_page"
  "form solved_page
     = Some \<lparr>inputs = [\<lparr>input_type = ''email'', input_name = ''email'',
                         input_value = ''me@example.org''\<rparr>,
                       \<lparr>input_type = ''hidden'', input_name = ''g-recaptcha-response'',
                         input_value = ''TOKEN123''\<rparr>],
             recaptcha_container = Some 0, other_names = []\<rparr>"
  "\<not> containerHidden 0 solved_page"
  by (simp_all add: solved_page_def onSubmitForm_def onRecaptchaSuccess_def formSubmit_def
      submitShadowed_def Let_def querySelector_def containerHidden_def rendered_page_def
      submitted_page_def contact_page_def)

text \<open>
  The handler of recaptcha-display.js does not look at the response: here the widget of
  the page is rendered and its response is a token, the flag has been used up by an
  earlier submit, and the submit is intercepted.
\<close>

theorem submit_interception_counterexample:
  "querySelector 0 solved_page = Some rendered_div
   \<and> getAttribute rendered_div ''data-recaptcha-widget-id'' = Some ''0''
   \<and> grecaptcha solved_page = Some solved_api
   \<and> getResponse solved_api 0 = ''TOKEN123''
   \<and> fst (onSubmitForm True solved_page)
       = \<lparr>defaultPrevented = True, returnValue = Some False\<rparr>
   \<and> \<not> proceeds (fst (onSubmitForm True solved_page))"
proof -
  have w: "getAttribute rendered_div ''data-recaptcha-widget-id'' = Some ''0''"
    by (simp add: getAttribute_def rendered_div_def)
  have ar: "attemptRender (Some 0) solved_page
      = (Returned, clearInlineError (Some 0) solved_page)"
    using solved_page_facts(1,2) w by (simp add: attemptRender_unfold truthy_def)
  have "fst (onSubmitForm True solved_page)
       = \<lparr>defaultPrevented = True, returnValue = Some False\<rparr>"
    using solved_page_facts ar by (simp add: onSubmitForm_def Let_def revealContainer_def)
  then show ?thesis
    using solved_page_facts w by (simp add: proceeds_def solved_api_def)
qed

theorem submit_interception_witness:
  "ev_target \<lparr>ev_target = Some 9\<rparr> = Some 9
   \<and> challenge_container form_js_page
       = Some \<lparr>has_hidden_class = True, has_visible_class = False\<rparr>
   \<and> \<not> hasResponse form_js_page
   \<and> fst (onSubmitForm_form \<lparr>ev_target = Some 9\<rparr> form_js_page)
       = \<lparr>defaultPrevented = True, returnValue = Some False\<rparr>
   \<and> pendingForm (snd (onSubmitForm_form \<lparr>ev_target = Some 9\<rparr> form_js_page)) = Some 9
   \<and> recaptchaWidgetId (snd (onSubmitForm_form \<lparr>ev_target = Some 9\<rparr> form_js_page)) = Some 0
   \<and> fj_submissions
        (submitEvents [\<lparr>ev_target = Some 9\<rparr>, \<lparr>ev_target = Some 9\<rparr>] form_js_page) = 0
   \<and> hasResponse (form_js_page\<lparr>recaptchaWidgetId := Some 0, fj_grecaptcha := Some solved_api\<rparr>)
   \<and> fst (onSubmitForm_form \<lparr>ev_target = Some 9\<rparr>
         (form_js_page\<lparr>recaptchaWidgetId := Some 0, fj_grecaptcha := Some solved_api\<rparr>))
       = \<lparr>defaultPrevented = False, returnValue = Some True\<rparr>
   \<and> \<not> allowSubmit contact_page
   \<and> fst (onSubmitForm True contact_page)
       = \<lparr>defaultPrevented = True, returnValue = Some False\<rparr>
   \<and> snd (onSubmitForm True contact_page) = submitted_page
   \<and> (\<exists>t'. run [Submit, RetryTimer 0, Expired, Submit] contact_page = Some t'
         \<and> submissions t' = 0 \<and> \<not> allowSubmit t')
   \<and> fst (onSubmitForm True (contact_page\<lparr>grecaptchaReady := True\<rparr>))
       = \<lparr>defaultPrevented = True, returnValue = None\<rparr>
   \<and> allowSubmit (snd (onRecaptchaSuccess ''TOKEN123'' rendered_page))
   \<and> fst (onSubmitForm True (snd (onRecaptchaSuccess ''TOKEN123'' rendered_page)))
       = \<lparr>defaultPrevented = False, returnValue = Some True\<rparr>"
proof -
  let ?ev = "\<lparr>ev_target = Some 9\<rparr>"
  let ?k = "\<lparr>has_hidden_class = True, has_visible_class = False\<rparr>"
  let ?solved = "form_js_page\<lparr>recaptchaWidgetId := Some 0, fj_grecaptcha := Some solved_api\<rparr>"
  let ?fm = "\<lparr>inputs = [\<lparr>input_type = ''email'', input_name = ''email'',
                         input_value = ''me@example.org''\<rparr>],
             recaptcha_container = Some 0, other_names = []\<rparr>"
  let ?ready = "contact_page\<lparr>grecaptchaReady := True\<rparr>"
  let ?done = "snd (onRecaptchaSuccess ''TOKEN123'' rendered_page)"
  let ?evs = "[?ev, ?ev]"
  let ?tevs = "[Submit, RetryTimer 0, Expired, Submit]"
  have c1: "challenge_container form_js_page = Some ?k"
    and n1: "\<not> hasResponse form_js_page"
    and u1: "\<forall>g w. fj_grecaptcha form_js_page = Some g \<longrightarrow> getResponse g w = []"
    and e1: "\<forall>e \<in> set ?evs. ev_target e \<noteq> None"
    and z1: "fj_submissions form_js_page = 0"
    by (simp_all add: form_js_page_def hasResponse_def working_api_def)
  have c2: "challenge_container ?solved = Some ?k" and h2: "hasResponse ?solved"
    by (simp_all add: form_js_page_def hasResponse_def solved_api_def)
  have f3: "form contact_page = Some ?fm" and n3: "\<not> allowSubmit contact_page"
    and z3: "submissions contact_page = 0"
    and r3: "\<not> (querySelector 0 contact_page \<noteq> None \<and> grecaptcha contact_page = None
                \<and> grecaptchaReady contact_page)"
    and ns3: "\<forall>tok. Solved tok \<notin> set ?tevs"
    by (simp_all add: contact_page_def)
  have f5: "form ?ready = Some ?fm" and n5: "\<not> allowSubmit ?ready"
    and r5: "querySelector 0 ?ready \<noteq> None \<and> grecaptcha ?ready = None \<and> grecaptchaReady ?ready"
    by (simp_all add: contact_page_def querySelector_def)
  have f4: "form ?done = Some (?fm\<lparr>inputs := inputs ?fm @
       [\<lparr>input_type = ''hidden'', input_name = ''g-recaptcha-response'',
         input_value = ''TOKEN123''\<rparr>]\<rparr>)"
    and a4: "allowSubmit ?done"
    by (simp_all add: onRecaptchaSuccess_def formSubmit_def Let_def rendered_page_def
        submitted_page_def contact_page_def)
  note t1 = submit_interception [where ev = ?ev and f = 9 and s = form_js_page and k = ?k
      and evs = ?evs and t = contact_page and fm = ?fm and c = 0 and tevs = ?tevs]
  note t2 = submit_interception [where ev = ?ev and f = 9 and s = ?solved and k = ?k
      and evs = ?evs and t = ?ready and fm = ?fm and c = 0 and tevs = ?tevs]
  note t4 = submit_interception [where ev = ?ev and f = 9 and s = form_js_page and k = ?k
      and evs = ?evs and t = ?done and c = 0 and tevs = ?tevs]
  have i1: "fst (onSubmitForm_form ?ev form_js_page)
       = \<lparr>defaultPrevented = True, returnValue = Some False\<rparr>
     \<and> snd (onSubmitForm_form ?ev form_js_page)
          = (renderRecaptchaIfNeeded
               (form_js_page\<lparr>pendingForm := Some 9,
                  challenge_container :=
                    Some (?k\<lparr>has_hidden_class := False, has_visible_class := True\<rparr>)\<rparr>))
              \<lparr>scrolls := Suc (scrolls form_js_page)\<rparr>
     \<and> pendingForm (snd (onSubmitForm_form ?ev form_js_page)) = Some 9"
    using t1 c1 n1 by (metis submit_event.select_convs(1))
  have i1a: "fst (onSubmitForm_form ?ev form_js_page)
       = \<lparr>defaultPrevented = True, returnValue = Some False\<rparr>"
    and i1b: "pendingForm (snd (onSubmitForm_form ?ev form_js_page)) = Some 9"
    using i1 by blast+
  have w1: "recaptchaWidgetId (snd (onSubmitForm_form ?ev form_js_page)) = Some 0"
    using i1 by (simp add: renderRecaptchaIfNeeded_def form_js_page_def working_api_def Let_def)
  have i1c: "fj_submissions (submitEvents ?evs form_js_page) = 0"
    using t1 u1 e1 z1 by metis
  have i2: "fst (onSubmitForm_form ?ev ?solved)
       = \<lparr>defaultPrevented = False, returnValue = Some True\<rparr>"
    using t2 c2 h2 by (metis submit_event.select_convs(1) fst_conv)
  have j3: "fst (onSubmitForm True contact_page)
             = \<lparr>defaultPrevented = True,
                returnValue = (if querySelector 0 contact_page \<noteq> None
                                  \<and> grecaptcha contact_page = None
                                  \<and> grecaptchaReady contact_page
                               then None else Some False)\<rparr>"
    and k3: "\<exists>t'. run ?tevs contact_page = Some t' \<and> submissions t' = submissions contact_page
                    \<and> \<not> allowSubmit t' \<and> form t' = form contact_page"
    using t1 f3 n3 ns3 by (metis form.select_convs(2))+
  have i3: "fst (onSubmitForm True contact_page)
       = \<lparr>defaultPrevented = True, returnValue = Some False\<rparr>"
    using j3 r3 by simp
  have s3: "snd (onSubmitForm True contact_page) = submitted_page"
    using contact_page_submitted i3 by (simp add: handle_def case_prod_beta proceeds_def)
  have l3: "\<exists>t'. run ?tevs contact_page = Some t' \<and> submissions t' = 0 \<and> \<not> allowSubmit t'"
    using k3 z3 by auto
  have j5: "fst (onSubmitForm True ?ready)
             = \<lparr>defaultPrevented = True,
                returnValue = (if querySelector 0 ?ready \<noteq> None \<and> grecaptcha ?ready = None
                                  \<and> grecaptchaReady ?ready
                               then None else Some False)\<rparr>"
    using t2 f5 n5 by (metis form.select_convs(2))
  have i5: "fst (onSubmitForm True ?ready) = \<lparr>defaultPrevented = True, returnValue = None\<rparr>"
    using j5 r5 by simp
  have i4: "fst (onSubmitForm True ?done) = \<lparr>defaultPrevented = False, returnValue = Some True\<rparr>"
    using t4 f4 a4 by (metis form.select_convs(2) form.update_convs(1) fst_conv)
  show ?thesis
    using c1 n1 h2 n3 a4 i1a i1b w1 i1c i2 i3 s3 l3 i5 i4 by simp
qed

end
